theory Spec2Isabelle
  imports Complex_Main "HOL-Library.Word"
begin

section \<open>The session controller: \<open>useShapeSocket\<close>\<close>

text \<open>
  The hook \<open>useShapeSocket\<close> (src/lib/useShapeSocket.ts) keeps its state in React state
  cells and two refs. The model is a record of those cells, and every callback of the hook is
  a function from the record to the updated record. The browser's WebSocket objects are an
  explicit store from socket handles to their \<open>readyState\<close>; \<open>wsRef.current\<close> is a handle
  or \<open>None\<close> for \<open>null\<close>. Frames given to \<open>ws.send\<close> are appended to \<open>outbox\<close>.
  \<open>next_socket\<close> and \<open>next_object\<close> are the allocators of \<open>new WebSocket\<close> and of the
  objects \<open>JSON.parse\<close> builds.

  The cell \<open>progressText\<close> is a display string computed from the same messages; no other
  cell and no callback reads it, and it is not part of the record. Console logging is not
  modelled.
\<close>

subsection \<open>Wire data\<close>

text \<open>Decoded JSON. A payload (\<open>msg.data\<close>, \<open>msg.detail\<close>) is a JSON object: its members in order.\<close>

datatype json =
    JNull
  | JBool bool
  | JNum int
  | JStr string
  | JArr "json list"
  | JObj "(string \<times> json) list"

type_synonym jobject = "(string \<times> json) list"

text \<open>
  A JavaScript object is known by its identity: dependency arrays and \<open>useState\<close> compare
  objects with \<open>Object.is\<close>. A reference is the object's address with its contents.
\<close>

type_synonym 'a ref = "nat \<times> 'a"

text \<open>The JavaScript operator \<open>key in obj\<close> on a decoded object.\<close>

definition has_field :: "string \<Rightarrow> jobject \<Rightarrow> bool" where
  "has_field k obj = (k \<in> set (map fst obj))"

text \<open>
  Text that a user types, and that the page trims, is a JavaScript string: a sequence of
  UTF-16 code units. \<open>ascii\<close> is such a string given by its ASCII characters. Names the
  code only compares with literals (phases, message types, session ids, property names) are
  plain \<open>string\<close>s.
\<close>

type_synonym js_string = "16 word list"

definition ascii :: "string \<Rightarrow> js_string" where
  "ascii s = map (\<lambda>c. of_nat (of_char c)) s"

text \<open>
  \<open>WsIncoming\<close> (api.ts): the decoded message, by its \<open>type\<close> member. \<open>Unknown\<close> is any
  decoded value whose \<open>type\<close> is none of the four; the \<open>switch\<close> sends it to \<open>default\<close>.
\<close>

datatype WsIncoming =
    Connected string
  | Progress string jobject "string option"
  | Result jobject
  | Error string
  | Unknown

text \<open>\<open>event.data\<close> as \<open>JSON.parse\<close> sees it: either it throws, or it yields a message.\<close>

datatype raw_message = Unparseable | Parsed WsIncoming

text \<open>The frames the hook sends.\<close>

datatype WsOutgoing =
    UploadAndSegment rat int bool
  | Query js_string

record SegmentOpts =
  target_step :: "rat option"
  downsample_nodes :: "int option"
  embed :: "bool option"

subsection \<open>State\<close>

text \<open>
  \<open>PipelinePhase\<close> is a TypeScript union of string literals; at run time the phase cell
  holds a string, and \<open>msg.step as PipelinePhase\<close> is an unchecked cast. The cell is a
  \<open>string\<close>; the union's members are listed in \<open>PipelinePhase_values\<close>.
\<close>

type_synonym PipelinePhase = string

definition PipelinePhase_values :: "PipelinePhase list" where
  "PipelinePhase_values =
    [''idle'', ''connecting'', ''connected'', ''segmenting'', ''segmented'',
     ''downsampling'', ''downsampled'', ''embedding'', ''embedded'', ''stored'',
     ''segment_done'', ''parsing_query'', ''tool_call'', ''query_done'', ''error'']"

record ProgressEntry =
  step :: string
  detail :: jobject
  explanation :: "string option"
  timestamp :: nat

datatype ready_state = CONNECTING | OPEN | CLOSING | CLOSED

datatype expecting = Segment | QueryE

record websocket =
  url :: string
  readyState :: ready_state

record hook =
  wsRef :: "nat option"
  sockets :: "nat \<rightharpoonup> websocket"
  next_socket :: nat
  outbox :: "(nat \<times> WsOutgoing) list"
  phase :: PipelinePhase
  progressLog :: "ProgressEntry list"
  next_object :: nat
  segmentResult :: "jobject ref option"
  queryResult :: "jobject ref option"
  queryResultVersion :: nat
  error :: "string option"
  isConnected :: bool
  expectingRef :: "expecting option"

text \<open>The state after the first render: the initial values of \<open>useState\<close> and \<open>useRef\<close>.\<close>

definition initial_hook :: hook where
  "initial_hook =
    \<lparr> wsRef = None, sockets = Map.empty, next_socket = 0, outbox = [],
      phase = ''idle'', progressLog = [], next_object = 0, segmentResult = None,
      queryResult = None, queryResultVersion = 0, error = None, isConnected = False,
      expectingRef = None \<rparr>"

subsection \<open>The browser's side of a socket\<close>

text \<open>
  \<open>ws.close()\<close> starts the closing handshake: an open or connecting socket becomes
  \<open>CLOSING\<close>, a closing or closed one is left as it is.
\<close>

fun closing :: "ready_state \<Rightarrow> ready_state" where
  "closing CONNECTING = CLOSING"
| "closing OPEN = CLOSING"
| "closing CLOSING = CLOSING"
| "closing CLOSED = CLOSED"

definition ws_close :: "nat \<Rightarrow> hook \<Rightarrow> hook" where
  "ws_close w s =
    (case sockets s w of
       None \<Rightarrow> s
     | Some sock \<Rightarrow> s\<lparr>sockets := (sockets s)(w \<mapsto> sock\<lparr>readyState := closing (readyState sock)\<rparr>)\<rparr>)"

definition ready_state_of :: "hook \<Rightarrow> nat \<Rightarrow> ready_state option" where
  "ready_state_of s w = map_option readyState (sockets s w)"

definition ws_open :: "hook \<Rightarrow> bool" where
  "ws_open s =
    (case wsRef s of
       None \<Rightarrow> False
     | Some w \<Rightarrow> ready_state_of s w = Some OPEN)"

definition ws_send :: "WsOutgoing \<Rightarrow> hook \<Rightarrow> hook" where
  "ws_send payload s =
    (case wsRef s of
       None \<Rightarrow> s
     | Some w \<Rightarrow> s\<lparr>outbox := outbox s @ [(w, payload)]\<rparr>)"

definition getWsUrl :: "string \<Rightarrow> string \<Rightarrow> string \<Rightarrow> string" where
  "getWsUrl ws_base uid sessionId = ws_base @ ''/ws/'' @ uid @ ''/'' @ sessionId"

subsection \<open>The callbacks\<close>

definition disconnect :: "hook \<Rightarrow> hook" where
  "disconnect s =
    (let s1 = (case wsRef s of
                 Some w \<Rightarrow> (ws_close w s)\<lparr>wsRef := None\<rparr>
               | None \<Rightarrow> s)
     in s1\<lparr>isConnected := False, phase := ''idle''\<rparr>)"

text \<open>
  \<open>connect\<close>: \<open>ws_base\<close> is the module constant \<open>WS_BASE\<close>, read from the build environment.
  The handlers it installs on the new socket are \<open>onopen\<close>, \<open>onmessage\<close>, \<open>onclose\<close> and
  \<open>onerror\<close> below; they close over nothing but the hook's setters and refs.
\<close>

definition connect :: "string \<Rightarrow> string \<Rightarrow> string \<Rightarrow> hook \<Rightarrow> hook" where
  "connect ws_base uid sessionId s =
    (let s1 = (case wsRef s of Some w \<Rightarrow> ws_close w s | None \<Rightarrow> s);
         s2 = s1\<lparr>phase := ''connecting'', error := None, progressLog := []\<rparr>;
         w = next_socket s2
     in s2\<lparr>sockets := (sockets s2)(w \<mapsto> \<lparr>url = getWsUrl ws_base uid sessionId, readyState = CONNECTING\<rparr>),
            next_socket := Suc w,
            wsRef := Some w\<rparr>)"

definition onopen :: "hook \<Rightarrow> hook" where
  "onopen s = s\<lparr>isConnected := True\<rparr>"

text \<open>\<open>now\<close> is the value of \<open>Date.now()\<close> when the message is handled.\<close>

fun on_incoming :: "nat \<Rightarrow> WsIncoming \<Rightarrow> hook \<Rightarrow> hook" where
  "on_incoming now (Connected sid) s =
     s\<lparr>phase := (if phase s = ''connecting'' \<or> phase s = ''idle'' then ''connected'' else phase s)\<rparr>"
| "on_incoming now (Progress stp det expl) s =
     s\<lparr>progressLog := progressLog s @ [\<lparr>step = stp, detail = det, explanation = expl, timestamp = now\<rparr>],
       phase := stp\<rparr>"
| "on_incoming now (Result data) s =
     (if expectingRef s = Some QueryE \<or> has_field ''answer'' data
      then s\<lparr>queryResult := Some (next_object s, data),
             queryResultVersion := queryResultVersion s + 1,
             phase := ''query_done'',
             expectingRef := None,
             next_object := Suc (next_object s)\<rparr>
      else s\<lparr>segmentResult := Some (next_object s, data),
             phase := ''segment_done'',
             expectingRef := None,
             next_object := Suc (next_object s)\<rparr>)"
| "on_incoming now (Error message) s =
     s\<lparr>error := Some message, phase := ''error''\<rparr>"
| "on_incoming now Unknown s = s"

fun onmessage :: "nat \<Rightarrow> raw_message \<Rightarrow> hook \<Rightarrow> hook" where
  "onmessage now Unparseable s = s"
| "onmessage now (Parsed msg) s = on_incoming now msg s"

definition onclose :: "int \<Rightarrow> hook \<Rightarrow> hook" where
  "onclose code s =
    (let s1 = s\<lparr>isConnected := False\<rparr>
     in if code = 4001
        then s1\<lparr>error := Some ''Authentication failed. Please sign in again.'', phase := ''error''\<rparr>
        else s1)"

definition onerror :: "hook \<Rightarrow> hook" where
  "onerror s = s\<lparr>error := Some ''WebSocket connection failed.'', phase := ''error'', isConnected := False\<rparr>"

definition triggerSegmentation :: "SegmentOpts option \<Rightarrow> hook \<Rightarrow> hook" where
  "triggerSegmentation opts s =
    (if \<not> ws_open s then s
     else
       let s1 = s\<lparr>expectingRef := Some Segment, progressLog := [], phase := ''segmenting''\<rparr>;
           payload = UploadAndSegment
             (case Option.bind opts target_step of Some v \<Rightarrow> v | None \<Rightarrow> 1)
             (case Option.bind opts downsample_nodes of Some v \<Rightarrow> v | None \<Rightarrow> 16)
             (case Option.bind opts embed of Some v \<Rightarrow> v | None \<Rightarrow> True)
       in ws_send payload s1)"

definition sendQuery :: "js_string \<Rightarrow> hook \<Rightarrow> hook" where
  "sendQuery query s =
    (if \<not> ws_open s then s
     else
       let s1 = s\<lparr>expectingRef := Some QueryE, phase := ''parsing_query''\<rparr>
       in ws_send (Query query) s1)"

text \<open>The cleanup of the hook's mount effect.\<close>

definition unmount :: "hook \<Rightarrow> hook" where
  "unmount s =
    (case wsRef s of
       Some w \<Rightarrow> (ws_close w s)\<lparr>wsRef := None\<rparr>
     | None \<Rightarrow> s)"

text \<open>What the hook's consumer may call: the exported setters.\<close>

definition setPhase :: "PipelinePhase \<Rightarrow> hook \<Rightarrow> hook" where
  "setPhase p s = s\<lparr>phase := p\<rparr>"

definition setSegmentResult :: "jobject ref option \<Rightarrow> hook \<Rightarrow> hook" where
  "setSegmentResult r s = s\<lparr>segmentResult := r\<rparr>"

text \<open>
  Events of a socket, as the browser raises them: it moves the socket's \<open>readyState\<close> and then
  calls the handler. A message event is dispatched only on an open socket.
\<close>

datatype ws_event = EvOpen | EvMessage nat raw_message | EvClose int | EvError

definition set_ready :: "nat \<Rightarrow> ready_state \<Rightarrow> hook \<Rightarrow> hook" where
  "set_ready w r s =
    (case sockets s w of
       None \<Rightarrow> s
     | Some sock \<Rightarrow> s\<lparr>sockets := (sockets s)(w \<mapsto> sock\<lparr>readyState := r\<rparr>)\<rparr>)"

fun deliver :: "nat \<Rightarrow> ws_event \<Rightarrow> hook \<Rightarrow> hook" where
  "deliver w EvOpen s =
     (if ready_state_of s w = Some CONNECTING then onopen (set_ready w OPEN s) else s)"
| "deliver w (EvMessage now raw) s =
     (if ready_state_of s w = Some OPEN then onmessage now raw s else s)"
| "deliver w (EvClose code) s =
     (if ready_state_of s w = None \<or> ready_state_of s w = Some CLOSED then s
      else onclose code (set_ready w CLOSED s))"
| "deliver w EvError s =
     (if ready_state_of s w = None \<or> ready_state_of s w = Some CLOSED then s
      else onerror s)"



section \<open>The page: \<open>DashboardPage\<close>\<close>

text \<open>
  The dashboard page owns the hook and three refs: the prompt typed in the upload dialog, the
  flag that a new session still needs its segmentation, and the flag that the segmentation
  under way is a fresh one. Two of its effects drive the controller: one starts the
  segmentation when the phase becomes \<open>connected\<close>, one sends the first query when the
  phase becomes \<open>segment_done\<close>.

  The model is the record of the hook, the active session, the three refs, whether the page
  is still mounted and, for each of the two effects, the dependency values of its last run.
  The transcript, the highlight set and the viewer controls are cells the handlers and
  effects below write but never read. They are not part of the record, with one exception:
  an update of the transcript is a function that React applies in the next render, and the
  record says whether one is queued that throws there. \<open>uid\<close> comes from the
  authentication context and \<open>ws_base\<close> is the module constant of \<open>api.ts\<close>; both are
  parameters.
\<close>

subsection \<open>Strings\<close>

text \<open>
  \<open>String.prototype.trim\<close> removes from both ends the code points ECMAScript calls
  WhiteSpace (tab, vertical tab, form feed, the byte order mark U+FEFF and the space
  separators U+0020, U+00A0, U+1680, U+2000 to U+200A, U+202F, U+205F, U+3000) and
  LineTerminator (line feed, carriage return, U+2028, U+2029). Each is one code unit.
\<close>

definition js_space :: "16 word \<Rightarrow> bool" where
  "js_space u =
    (u \<in> set [0x0009, 0x000A, 0x000B, 0x000C, 0x000D, 0x0020, 0x00A0, 0x1680,
               0x2000, 0x2001, 0x2002, 0x2003, 0x2004, 0x2005, 0x2006, 0x2007,
               0x2008, 0x2009, 0x200A, 0x2028, 0x2029, 0x202F, 0x205F, 0x3000, 0xFEFF])"

definition trim :: "js_string \<Rightarrow> js_string" where
  "trim s = rev (dropWhile js_space (rev (dropWhile js_space s)))"

text \<open>A \<open>string | null\<close> used as a condition: \<open>null\<close> and the empty string are falsy.\<close>

definition truthy :: "string option \<Rightarrow> bool" where
  "truthy v = (case v of None \<Rightarrow> False | Some s \<Rightarrow> s \<noteq> [])"

definition isProcessing :: "PipelinePhase \<Rightarrow> bool" where
  "isProcessing p =
    (p \<in> set [''connecting'', ''segmenting'', ''segmented'', ''downsampling'',
               ''downsampled'', ''embedding'', ''embedded'', ''stored'',
               ''parsing_query'', ''tool_call''])"

subsection \<open>What a render reads of the segment result\<close>

text \<open>
  The property \<open>obj.k\<close> of a decoded object: \<open>None\<close> is \<open>undefined\<close>. Of two members with
  the same key \<open>JSON.parse\<close> keeps the later one. \<open>own_values\<close> are the values
  \<open>Object.entries\<close> pairs with the keys.
\<close>

definition field :: "string \<Rightarrow> jobject \<Rightarrow> json option" where
  "field k obj = map_of (rev obj) k"

definition own_values :: "jobject \<Rightarrow> json list" where
  "own_values obj = List.map_filter (\<lambda>k. field k obj) (remdups (map fst obj))"

text \<open>
  What React accepts as a child in \<open>{value}\<close>: strings and numbers are shown, \<open>null\<close> and
  booleans are skipped, an array is accepted when its elements are, a plain object makes
  React throw.
\<close>

fun react_child :: "json \<Rightarrow> bool" where
  "react_child JNull = True"
| "react_child (JBool b) = True"
| "react_child (JNum n) = True"
| "react_child (JStr s) = True"
| "react_child (JArr xs) = list_all react_child xs"
| "react_child (JObj kvs) = False"

text \<open>
  With an active session, a phase that is not a processing one and a segment result, the
  top bar shows \<open>segmentResult.summary.total_segments\<close> and one item
  \<open>{count} {type}\<close> for each entry of
  \<open>Object.entries(segmentResult.summary.counts_by_type)\<close>. Reading a property of
  \<open>undefined\<close> or \<open>null\<close> throws, \<open>Object.entries\<close> of \<open>undefined\<close> or \<open>null\<close> throws,
  and so does a child React does not accept. \<open>legend_renders\<close> holds when none of this
  happens.
\<close>

definition legend_renders :: "jobject \<Rightarrow> bool" where
  "legend_renders seg =
    (case field ''summary'' seg of
       Some (JObj summary) \<Rightarrow>
         (case field ''total_segments'' summary of None \<Rightarrow> True | Some v \<Rightarrow> react_child v)
         \<and> (case field ''counts_by_type'' summary of
               None \<Rightarrow> False
             | Some JNull \<Rightarrow> False
             | Some (JObj counts) \<Rightarrow> list_all react_child (own_values counts)
             | Some (JArr xs) \<Rightarrow> list_all react_child xs
             | Some (JBool b) \<Rightarrow> True
             | Some (JNum n) \<Rightarrow> True
             | Some (JStr s) \<Rightarrow> True)
     | _ \<Rightarrow> False)"

text \<open>
  The line the segment-done effect adds to the transcript is built, when the update is
  applied, from \<open>summary.total_segments\<close> and
  \<open>Object.entries(summary.counts_by_type)\<close>, the entries joined in a template string.
  \<open>summary_line_builds\<close> holds when neither the property read nor \<open>Object.entries\<close>
  throws.
\<close>

definition summary_line_builds :: "jobject \<Rightarrow> bool" where
  "summary_line_builds seg =
    (case field ''summary'' seg of
       Some (JObj summary) \<Rightarrow>
         (case field ''counts_by_type'' summary of
            None \<Rightarrow> False
          | Some JNull \<Rightarrow> False
          | Some v \<Rightarrow> True)
     | _ \<Rightarrow> False)"

subsection \<open>State and effects\<close>

record dashboard =
  sock :: hook
  activeSession :: "string option"
  pendingPromptRef :: "js_string option"
  needsSegmentationRef :: bool
  freshSegmentationRef :: bool
  mounted :: bool
  messages_update_throws :: bool
  segment_done_deps :: "(PipelinePhase \<times> nat option) option"
  auto_trigger_deps :: "(PipelinePhase \<times> string option) option"

text \<open>The page after its first render: both effects have run once, on the initial values.\<close>

definition initial_dashboard :: dashboard where
  "initial_dashboard =
    \<lparr> sock = initial_hook, activeSession = None, pendingPromptRef = None,
      needsSegmentationRef = False, freshSegmentationRef = False, mounted = True,
      messages_update_throws = False,
      segment_done_deps = Some (''idle'', None), auto_trigger_deps = Some (''idle'', None) \<rparr>"

text \<open>
  A render throws when it applies a queued update of the transcript that throws, and when
  the top bar shows a segment result whose legend does not render. React then runs none of
  the render's effects and unmounts the page; the hook's cleanup closes the socket. The
  top bar is the only place where the page's own render reads into the segment result; the
  viewer, a child, receives it as a prop.
\<close>

definition render_throws :: "dashboard \<Rightarrow> bool" where
  "render_throws d =
    (messages_update_throws d
     \<or> truthy (activeSession d) \<and> \<not> isProcessing (phase (sock d))
        \<and> (case segmentResult (sock d) of
              None \<Rightarrow> False
            | Some r \<Rightarrow> \<not> legend_renders (snd r)))"

definition crash :: "dashboard \<Rightarrow> dashboard" where
  "crash d = d\<lparr>mounted := False, sock := unmount (sock d)\<rparr>"

text \<open>\<open>pendingPromptRef.current?.trim() || "describe this geometry"\<close>\<close>

definition auto_prompt :: "js_string option \<Rightarrow> js_string" where
  "auto_prompt pending =
    (case map_option trim pending of
       None \<Rightarrow> ascii ''describe this geometry''
     | Some p \<Rightarrow> if p = [] then ascii ''describe this geometry'' else p)"

text \<open>
  An effect reads the state cells of the render it belongs to (\<open>ph\<close>, \<open>seg\<close>, \<open>active\<close>) and
  the refs as they are when it runs. The segment-done effect queues its updates of the
  transcript and goes on to send the query; an update that throws does so in the next
  render.
\<close>

definition segment_done_effect :: "PipelinePhase \<Rightarrow> jobject ref option \<Rightarrow> dashboard \<Rightarrow> dashboard" where
  "segment_done_effect ph seg d =
    (if ph = ''segment_done'' \<and> seg \<noteq> None \<and> freshSegmentationRef d
     then let line_throws = (case seg of None \<Rightarrow> False | Some r \<Rightarrow> \<not> summary_line_builds (snd r));
              prompt = auto_prompt (pendingPromptRef d)
          in d\<lparr>freshSegmentationRef := False, pendingPromptRef := None,
               messages_update_throws := messages_update_throws d \<or> line_throws,
               sock := sendQuery prompt (sock d)\<rparr>
     else d)"

definition auto_trigger_effect :: "PipelinePhase \<Rightarrow> string option \<Rightarrow> dashboard \<Rightarrow> dashboard" where
  "auto_trigger_effect ph active d =
    (if ph = ''connected'' \<and> truthy active \<and> needsSegmentationRef d
     then d\<lparr>needsSegmentationRef := False, freshSegmentationRef := True,
            sock := triggerSegmentation None (sock d)\<rparr>
     else d)"

text \<open>
  The dependency arrays: \<open>[phase, segmentResult, sendQuery, scrollToBottom]\<close> and
  \<open>[phase, activeSession, triggerSegmentation]\<close>. The callbacks are stable; the segment
  result is compared by identity.
\<close>

definition segment_done_now :: "dashboard \<Rightarrow> PipelinePhase \<times> nat option" where
  "segment_done_now d = (phase (sock d), map_option fst (segmentResult (sock d)))"

definition auto_trigger_now :: "dashboard \<Rightarrow> PipelinePhase \<times> string option" where
  "auto_trigger_now d = (phase (sock d), activeSession d)"

text \<open>
  The effects of one render that did not throw, in the order the page declares them: an
  effect runs when its dependencies differ from those of its last run.
\<close>

definition effects_pass :: "dashboard \<Rightarrow> dashboard" where
  "effects_pass d =
    (let ph = phase (sock d);
         seg = segmentResult (sock d);
         active = activeSession d;
         deps1 = segment_done_now d;
         deps2 = auto_trigger_now d;
         d1 = (if segment_done_deps d \<noteq> Some deps1 then segment_done_effect ph seg d else d);
         d2 = (if auto_trigger_deps d \<noteq> Some deps2 then auto_trigger_effect ph active d1 else d1)
     in d2\<lparr>segment_done_deps := Some deps1, auto_trigger_deps := Some deps2\<rparr>)"

text \<open>
  A state is stale when a dependency has changed since the effects last ran. After a
  handler, React renders; a render that throws ends the page, one that does not is followed
  by its effects, and effects that set a state cell by another render. \<open>settle\<close> renders
  at most \<open>n\<close> times with effects to run; two such renders always suffice
  (\<open>settle_reaches_fixpoint\<close>).
\<close>

definition stale :: "dashboard \<Rightarrow> bool" where
  "stale d = (segment_done_deps d \<noteq> Some (segment_done_now d)
              \<or> auto_trigger_deps d \<noteq> Some (auto_trigger_now d))"

fun settle :: "nat \<Rightarrow> dashboard \<Rightarrow> dashboard" where
  "settle 0 d = d"
| "settle (Suc n) d =
     (if render_throws d then crash d
      else if stale d then settle n (effects_pass d)
      else d)"

subsection \<open>Handlers\<close>

text \<open>
  \<open>handleCreateInteraction\<close>, from the point where the upload has returned the new
  session's id (\<open>sid\<close>); before it the handler only awaits the upload.
\<close>

definition handleCreateInteraction :: "string \<Rightarrow> string \<Rightarrow> string \<Rightarrow> js_string \<Rightarrow> dashboard \<Rightarrow> dashboard" where
  "handleCreateInteraction ws_base uid sid modalPrompt d =
    d\<lparr>pendingPromptRef := (if modalPrompt = [] then None else Some modalPrompt),
      needsSegmentationRef := True,
      activeSession := Some sid,
      sock := connect ws_base uid sid (sock d)\<rparr>"

text \<open>\<open>handleSelectSession\<close>, up to the point where it awaits the saved chat and segments.\<close>

definition handleSelectSession :: "string \<Rightarrow> string \<Rightarrow> string \<Rightarrow> dashboard \<Rightarrow> dashboard" where
  "handleSelectSession ws_base uid sid d =
    (if activeSession d = Some sid then d
     else
       let d1 = d\<lparr>activeSession := Some sid,
                   sock := setSegmentResult None (disconnect (sock d))\<rparr>
       in if uid = [] then d1
          else d1\<lparr>sock := connect ws_base uid sid (sock d1)\<rparr>)"

text \<open>
  The rest of \<open>handleSelectSession\<close>, when the saved data has arrived: \<open>segs\<close> is what
  \<open>getSegments\<close> returned, \<open>None\<close> for \<open>null\<close>.
\<close>

definition session_data_loaded :: "jobject option \<Rightarrow> dashboard \<Rightarrow> dashboard" where
  "session_data_loaded segs d =
    (case segs of
       None \<Rightarrow> d
     | Some obj \<Rightarrow>
         let s = sock d;
             r = (next_object s, obj)
         in d\<lparr>sock := setPhase ''segment_done''
                          (setSegmentResult (Some r) (s\<lparr>next_object := Suc (next_object s)\<rparr>))\<rparr>)"

definition handleSendMessage :: "js_string \<Rightarrow> dashboard \<Rightarrow> dashboard" where
  "handleSendMessage chatInput d =
    (let trimmed = trim chatInput
     in if trimmed = [] \<or> \<not> truthy (activeSession d) \<or> isProcessing (phase (sock d)) then d
        else d\<lparr>sock := sendQuery trimmed (sock d)\<rparr>)"

subsection \<open>Runs of the page\<close>

text \<open>
  What can happen to the page: an upload completes, the user picks a session from the
  history, the saved data of the picked session arrives, the user sends a chat message, a
  socket raises an event. Each is handled and the page then renders until it is settled.
  A page that has been unmounted handles nothing.
\<close>

datatype page_event =
    Created string js_string
  | Selected string
  | Restored "jobject option"
  | Typed js_string
  | Socket nat ws_event

fun handle :: "string \<Rightarrow> string \<Rightarrow> page_event \<Rightarrow> dashboard \<Rightarrow> dashboard" where
  "handle ws_base uid (Created sid modalPrompt) d = handleCreateInteraction ws_base uid sid modalPrompt d"
| "handle ws_base uid (Selected sid) d = handleSelectSession ws_base uid sid d"
| "handle ws_base uid (Restored segs) d = session_data_loaded segs d"
| "handle ws_base uid (Typed chatInput) d = handleSendMessage chatInput d"
| "handle ws_base uid (Socket w ev) d = d\<lparr>sock := deliver w ev (sock d)\<rparr>"

definition dispatch :: "string \<Rightarrow> string \<Rightarrow> page_event \<Rightarrow> dashboard \<Rightarrow> dashboard" where
  "dispatch ws_base uid ev d = (if mounted d then settle 2 (handle ws_base uid ev d) else d)"

definition run :: "string \<Rightarrow> string \<Rightarrow> page_event list \<Rightarrow> dashboard \<Rightarrow> dashboard" where
  "run ws_base uid evs d = fold (dispatch ws_base uid) evs d"

text \<open>
  Events in which the user neither uploads nor types: every query sent during a run of such
  events is an automatic one.
\<close>

fun unprompted :: "page_event \<Rightarrow> bool" where
  "unprompted (Created sid p) = False"
| "unprompted (Typed t) = False"
| "unprompted (Selected sid) = True"
| "unprompted (Restored segs) = True"
| "unprompted (Socket w ev) = True"

section \<open>The render engine: face colours of \<open>MeshViewer\<close>\<close>

text \<open>
  The render effect of \<open>MeshViewer\<close> (src/components/MeshViewer.tsx) fills a
  \<open>Uint8Array\<close> with one RGB triple per face of the surface mesh: first the default colour
  for every face, then, segment by segment in the order of the result, the segment's colour
  for every face the segment lists. The colour constants are those of \<open>meshConstants\<close>.

  Of a segment the colouring reads \<open>segment_id\<close>, \<open>type\<close> and the optional \<open>face_ids\<close>;
  the record has these fields. Face ids arrive as JSON numbers; they are integers here, and
  a negative one is possible.
\<close>

type_synonym rgb = "nat \<times> nat \<times> nat"

definition DEFAULT_MESH_COLOR :: rgb where
  "DEFAULT_MESH_COLOR = (200, 200, 210)"

definition HIGHLIGHT_COLOR :: rgb where
  "HIGHLIGHT_COLOR = (255, 230, 80)"

text \<open>
  \<open>SEGMENT_COLORS\<close> is an object literal with four properties of its own. Reading
  \<open>SEGMENT_COLORS[name]\<close> follows the prototype chain: a name that is not one of the four
  but names a member of \<open>Object.prototype\<close> yields that member, a function or (for
  \<open>__proto__\<close>) the prototype object itself; any other name yields \<open>undefined\<close>, here
  \<open>None\<close>.
\<close>

datatype color_value = Triple rgb | Member

definition Object_prototype_members :: "string list" where
  "Object_prototype_members =
    [''constructor'', ''__defineGetter__'', ''__defineSetter__'', ''hasOwnProperty'',
     ''__lookupGetter__'', ''__lookupSetter__'', ''isPrototypeOf'', ''propertyIsEnumerable'',
     ''toString'', ''valueOf'', ''__proto__'', ''toLocaleString'']"

definition SEGMENT_COLORS_own :: "string \<rightharpoonup> rgb" where
  "SEGMENT_COLORS_own =
    map_of [(''straight'', (90, 178, 242)),
            (''arc'', (242, 140, 90)),
            (''junction'', (110, 210, 110)),
            (''corner'', (230, 100, 140))]"

definition SEGMENT_COLORS :: "string \<rightharpoonup> color_value" where
  "SEGMENT_COLORS name =
    (case SEGMENT_COLORS_own name of
       Some c \<Rightarrow> Some (Triple c)
     | None \<Rightarrow> if name \<in> set Object_prototype_members then Some Member else None)"

record Segment =
  segment_id :: int
  type :: string
  face_ids :: "int list option"

record SegmentResult =
  segments :: "Segment list"

text \<open>
  A \<open>Uint8Array\<close> is a list of bytes. Storing a number converts it modulo 256; storing at an
  index that is not inside the array does nothing and raises nothing.
\<close>

type_synonym u8array = "8 word list"

definition u8_store :: "u8array \<Rightarrow> int \<Rightarrow> nat \<Rightarrow> u8array" where
  "u8_store buf i v = (if 0 \<le> i \<and> i < int (length buf) then buf[nat i := of_nat v] else buf)"

text \<open>The three stores \<open>faceColors[faceIdx * 3 + k] = color[k]\<close>.\<close>

fun put_rgb :: "int \<Rightarrow> rgb \<Rightarrow> u8array \<Rightarrow> u8array" where
  "put_rgb faceIdx (r, g, b) buf =
     u8_store (u8_store (u8_store buf (faceIdx * 3) r) (faceIdx * 3 + 1) g) (faceIdx * 3 + 2) b"

text \<open>
  \<open>isHighlighted ? HIGHLIGHT_COLOR : SEGMENT_COLORS[seg.type] || DEFAULT_MESH_COLOR\<close>:
  an array, a function and an object are all truthy, so the default is taken only for
  \<open>undefined\<close>.
\<close>

definition segment_color :: "int list \<Rightarrow> Segment \<Rightarrow> color_value" where
  "segment_color highlightIds seg =
    (if segment_id seg \<in> set highlightIds then Triple HIGHLIGHT_COLOR
     else case SEGMENT_COLORS (type seg) of Some v \<Rightarrow> v | None \<Rightarrow> Triple DEFAULT_MESH_COLOR)"

text \<open>
  \<open>color[0]\<close>, \<open>color[1]\<close>, \<open>color[2]\<close> as the typed array takes them: a member of
  \<open>Object.prototype\<close> has no indexed elements, and \<open>undefined\<close> is stored as 0.
\<close>

fun elements :: "color_value \<Rightarrow> rgb" where
  "elements (Triple c) = c"
| "elements Member = (0, 0, 0)"

text \<open>The body of the loop over \<open>seg.face_ids\<close>, with its guard \<open>faceIdx < numFaces\<close>.\<close>

definition paint_face :: "nat \<Rightarrow> rgb \<Rightarrow> int \<Rightarrow> u8array \<Rightarrow> u8array" where
  "paint_face numFaces color faceIdx buf =
    (if faceIdx < int numFaces then put_rgb faceIdx color buf else buf)"

text \<open>The body of the loop over \<open>segmentResult.segments\<close>.\<close>

definition paint_segment :: "nat \<Rightarrow> int list \<Rightarrow> Segment \<Rightarrow> u8array \<Rightarrow> u8array" where
  "paint_segment numFaces highlightIds seg buf =
    (let color = segment_color highlightIds seg
     in case face_ids seg of
          None \<Rightarrow> buf
        | Some ids \<Rightarrow>
            if length ids > 0 then fold (paint_face numFaces (elements color)) ids buf else buf)"

text \<open>\<open>new Uint8Array(numFaces * 3)\<close>, zero-filled, and the loop that writes the default colour.\<close>

definition default_colors :: "nat \<Rightarrow> u8array" where
  "default_colors numFaces =
    fold (\<lambda>i. put_rgb (int i) DEFAULT_MESH_COLOR) [0..<numFaces] (replicate (numFaces * 3) 0)"

text \<open>The face colour buffer handed to VTK as the cell scalars \<open>SegmentColors\<close>.\<close>

definition color_faces :: "nat \<Rightarrow> SegmentResult option \<Rightarrow> int list \<Rightarrow> u8array" where
  "color_faces numFaces segResult highlightIds =
    (case segResult of
       None \<Rightarrow> default_colors numFaces
     | Some r \<Rightarrow> fold (paint_segment numFaces highlightIds) (segments r) (default_colors numFaces))"

subsection \<open>Reading the buffer\<close>

text \<open>
  The colour of face \<open>f\<close> as the mapper reads it back: three components per cell. The set of
  face ids of a segment, empty when it has no \<open>face_ids\<close>. A colour whose components fit a
  byte. A segment with the face ids at or beyond the face count removed.
\<close>

definition face_rgb :: "u8array \<Rightarrow> nat \<Rightarrow> rgb" where
  "face_rgb buf f = (unat (buf ! (f * 3)), unat (buf ! (f * 3 + 1)), unat (buf ! (f * 3 + 2)))"

definition face_set :: "Segment \<Rightarrow> int set" where
  "face_set seg = (case face_ids seg of None \<Rightarrow> {} | Some ids \<Rightarrow> set ids)"

definition byte_rgb :: "rgb \<Rightarrow> bool" where
  "byte_rgb c = (case c of (r, g, b) \<Rightarrow> r < 256 \<and> g < 256 \<and> b < 256)"

definition clip_face_ids :: "nat \<Rightarrow> Segment \<Rightarrow> Segment" where
  "clip_face_ids numFaces seg =
     seg\<lparr>face_ids := map_option (filter (\<lambda>faceIdx. faceIdx < int numFaces)) (face_ids seg)\<rparr>"

section \<open>The component \<open>MeshViewer\<close>\<close>

text \<open>
  The component has three effects: one applies the \<open>opacity\<close> prop to the surface actor,
  one fetches the surface mesh, one builds the VTK scene. The model keeps the component's
  state cells and refs, the allocators of VTK instances and animation frames, and for each
  effect the dependency values of its last run. A VTK render window is known by its instance
  number; the surface actor is the pair of its cell colours and its opacity. Vertex
  coordinates, the triangle index buffer, the centreline overlay and the camera are built by
  the same effect and are not in the record.
\<close>

record SurfaceMesh =
  vertices :: "rat list list"
  faces :: "int list list"

record surface_actor =
  scalars :: u8array
  actor_opacity :: rat

record MeshViewerProps =
  uid :: string
  sessionId :: string
  segmentResult_prop :: "SegmentResult ref option"
  highlightIds :: "int list ref"
  processing :: bool
  opacity :: rat

record viewer =
  surfaceMesh :: "SurfaceMesh ref option"
  loading :: bool
  error_v :: "string option"
  containerRef :: bool
  vtkContextRef :: "nat option"
  surfaceActorRef :: "surface_actor option"
  rendererRef :: "nat option"
  renderWindowRef :: "nat option"
  rotatingRef :: bool
  rafIdRef :: "nat option"
  next_instance :: nat
  next_frame :: nat
  opacity_deps :: "rat option"
  fetch_deps :: "(string \<times> string) option"
  render_deps :: "(nat option \<times> nat option \<times> nat \<times> rat) option"
  render_cleanup :: bool

definition initial_viewer :: viewer where
  "initial_viewer =
    \<lparr> surfaceMesh = None, loading = False, error_v = None, containerRef = False,
      vtkContextRef = None, surfaceActorRef = None, rendererRef = None, renderWindowRef = None,
      rotatingRef = True, rafIdRef = None, next_instance = 0, next_frame = 0,
      opacity_deps = None, fetch_deps = None, render_deps = None, render_cleanup = False \<rparr>"

definition startRotation :: "viewer \<Rightarrow> viewer" where
  "startRotation v =
    (if rafIdRef v \<noteq> None then v
     else v\<lparr>rafIdRef := Some (next_frame v), next_frame := Suc (next_frame v)\<rparr>)"

definition stopRotation :: "viewer \<Rightarrow> viewer" where
  "stopRotation v = (if rafIdRef v \<noteq> None then v\<lparr>rafIdRef := None\<rparr> else v)"

text \<open>The effect with dependencies \<open>[opacity]\<close>.\<close>

definition opacity_effect :: "MeshViewerProps \<Rightarrow> viewer \<Rightarrow> viewer" where
  "opacity_effect props v =
    (case surfaceActorRef v of
       Some actor \<Rightarrow>
         if renderWindowRef v \<noteq> None
         then v\<lparr>surfaceActorRef := Some (actor\<lparr>actor_opacity := opacity props\<rparr>)\<rparr>
         else v
     | None \<Rightarrow> v)"

text \<open>
  The effect with dependencies \<open>[uid, sessionId]\<close> starts the request; \<open>fetch_resolved\<close>
  and \<open>fetch_rejected\<close> are its \<open>then\<close> and \<open>catch\<close> branches, each followed by \<open>finally\<close>.
\<close>

definition fetch_effect :: "MeshViewerProps \<Rightarrow> viewer \<Rightarrow> viewer" where
  "fetch_effect props v =
    (if uid props = [] \<or> sessionId props = [] then v
     else v\<lparr>loading := True, error_v := None\<rparr>)"

definition fetch_resolved :: "SurfaceMesh ref \<Rightarrow> viewer \<Rightarrow> viewer" where
  "fetch_resolved data v =
    (let v1 = (if length (vertices (snd data)) = 0 \<or> length (faces (snd data)) = 0
               then v\<lparr>error_v := Some ''Mesh data is empty or has unexpected format.''\<rparr>
               else v\<lparr>surfaceMesh := Some data\<rparr>)
     in v1\<lparr>loading := False\<rparr>)"

definition fetch_rejected :: "string \<Rightarrow> viewer \<Rightarrow> viewer" where
  "fetch_rejected message v =
    v\<lparr>error_v := Some (''Could not load mesh: '' @ (if message = [] then ''unknown error'' else message)),
      loading := False\<rparr>"

text \<open>
  The effect that builds the scene, with dependencies
  \<open>[surfaceMesh, segmentResult, highlightIds, opacity]\<close>. It returns early, and registers no
  cleanup, without a container or a mesh. Otherwise it makes a new render window, computes
  the face colours, makes the surface actor with the current opacity, and starts the
  rotation; \<open>render_effect_cleanup\<close> is the function it returns.
\<close>

definition render_effect :: "MeshViewerProps \<Rightarrow> viewer \<Rightarrow> viewer" where
  "render_effect props v =
    (case surfaceMesh v of
       None \<Rightarrow> v\<lparr>render_cleanup := False\<rparr>
     | Some (a, mesh) \<Rightarrow>
         if \<not> containerRef v \<or> length (vertices mesh) = 0 \<or> length (faces mesh) = 0
         then v\<lparr>render_cleanup := False\<rparr>
         else
           let fullScreenRenderer = next_instance v;
               numFaces = length (faces mesh);
               faceColors = color_faces numFaces (map_option snd (segmentResult_prop props))
                              (snd (highlightIds props));
               surfaceActor = \<lparr>scalars = faceColors, actor_opacity = opacity props\<rparr>;
               v1 = v\<lparr>vtkContextRef := Some fullScreenRenderer,
                      rendererRef := Some fullScreenRenderer,
                      renderWindowRef := Some fullScreenRenderer,
                      surfaceActorRef := Some surfaceActor,
                      next_instance := Suc fullScreenRenderer,
                      render_cleanup := True\<rparr>
           in if rotatingRef v1 then startRotation v1 else v1)"

definition render_effect_cleanup :: "viewer \<Rightarrow> viewer" where
  "render_effect_cleanup v =
    (stopRotation v)\<lparr>surfaceActorRef := None, rendererRef := None, renderWindowRef := None,
                      vtkContextRef := None\<rparr>"

definition render_deps_now :: "MeshViewerProps \<Rightarrow> viewer \<Rightarrow> nat option \<times> nat option \<times> nat \<times> rat" where
  "render_deps_now props v =
    (map_option fst (surfaceMesh v), map_option fst (segmentResult_prop props),
     fst (highlightIds props), opacity props)"

text \<open>
  One render with its commit. The container \<open>div\<close> is in the output, and \<open>containerRef\<close>
  attached, when the component is neither loading nor in error and has a mesh. Then the
  cleanups of the effects whose dependencies changed run, then those effects, in the order
  of declaration.
\<close>

definition render_pass :: "MeshViewerProps \<Rightarrow> viewer \<Rightarrow> viewer" where
  "render_pass props v =
    (let v0 = v\<lparr>containerRef := (\<not> loading v \<and> error_v v = None \<and> surfaceMesh v \<noteq> None)\<rparr>;
         run_opacity = (opacity_deps v0 \<noteq> Some (opacity props));
         run_fetch = (fetch_deps v0 \<noteq> Some (uid props, sessionId props));
         run_render = (render_deps v0 \<noteq> Some (render_deps_now props v0));
         v1 = (if run_render \<and> render_cleanup v0 then render_effect_cleanup v0 else v0);
         v2 = (if run_opacity then opacity_effect props v1 else v1);
         v3 = (if run_fetch then fetch_effect props v2 else v2);
         v4 = (if run_render then render_effect props v3 else v3)
     in v4\<lparr>opacity_deps := Some (opacity props),
           fetch_deps := Some (uid props, sessionId props),
           render_deps := Some (render_deps_now props v0)\<rparr>)"

text \<open>An effect that set a state cell causes one more render.\<close>

definition rerender :: "MeshViewerProps \<Rightarrow> viewer \<Rightarrow> viewer" where
  "rerender props v =
    (let v1 = render_pass props v
     in if (surfaceMesh v1, loading v1, error_v v1) = (surfaceMesh v, loading v, error_v v)
        then v1 else render_pass props v1)"

section \<open>Scenarios\<close>

text \<open>Concrete states and runs, used below to instantiate the properties.\<close>

text \<open>
  A session whose socket has opened and been acknowledged, and on which a segmentation has
  just been started.
\<close>

definition segmenting_hook :: hook where
  "segmenting_hook =
    triggerSegmentation None
      (deliver 0 (EvMessage 2 (Parsed (Connected ''s'')))
        (deliver 0 EvOpen (connect '''' ''u'' ''s'' initial_hook)))"



text \<open>A segment result as the server sends it and as the fetch path returns it.\<close>

definition segments_payload :: jobject where
  "segments_payload =
    [(''segments'',
        JArr [JObj [(''segment_id'', JNum 1), (''type'', JStr ''straight''), (''face_ids'', JArr [JNum 0])],
              JObj [(''segment_id'', JNum 2), (''type'', JStr ''arc''), (''face_ids'', JArr [JNum 1])]]),
     (''summary'',
        JObj [(''total_segments'', JNum 2),
              (''counts_by_type'', JObj [(''straight'', JNum 1), (''arc'', JNum 1)])])]"

text \<open>
  A new session \<open>A\<close> is created with the prompt typed in the dialog; its socket opens and is
  acknowledged; the server reports progress and then the segmentation result.
\<close>

definition fresh_trace :: "js_string \<Rightarrow> page_event list" where
  "fresh_trace modalPrompt =
    [Created ''A'' modalPrompt,
     Socket 0 EvOpen,
     Socket 0 (EvMessage 10 (Parsed (Connected ''A''))),
     Socket 0 (EvMessage 20 (Parsed (Progress ''segmented'' [(''total_segments'', JNum 7)] None))),
     Socket 0 (EvMessage 30 (Parsed (Result segments_payload)))]"

definition page_opened :: dashboard where
  "page_opened = run [] ''u'' (take 2 (fresh_trace (ascii '' hi ''))) initial_dashboard"

definition page_segmenting :: dashboard where
  "page_segmenting = run [] ''u'' (take 4 (fresh_trace (ascii '' hi ''))) initial_dashboard"

definition page_described :: dashboard where
  "page_described = run [] ''u'' (fresh_trace (ascii '' hi '')) initial_dashboard"

text \<open>The user then opens the older session \<open>B\<close> from the history; its saved segments arrive.\<close>

definition restore_trace :: "page_event list" where
  "restore_trace =
    [Selected ''B'',
     Socket 1 EvOpen,
     Socket 1 (EvMessage 40 (Parsed (Connected ''B''))),
     Restored (Some segments_payload)]"

text \<open>
  A new session \<open>A\<close> is created and its segmentation starts; before the result arrives the
  user opens the older session \<open>B\<close>, whose socket opens and whose saved segments arrive.
\<close>

definition switch_trace :: "page_event list" where
  "switch_trace =
    [Created ''A'' [],
     Socket 0 EvOpen,
     Socket 0 (EvMessage 10 (Parsed (Connected ''A''))),
     Selected ''B'',
     Socket 1 EvOpen,
     Socket 1 (EvMessage 20 (Parsed (Connected ''B''))),
     Restored (Some segments_payload)]"

text \<open>
  A new session \<open>A\<close> is created; before its socket is acknowledged the user opens the older
  session \<open>B\<close>, whose socket opens and is acknowledged and whose saved segments then arrive.
\<close>

definition early_switch_trace :: "page_event list" where
  "early_switch_trace =
    [Created ''A'' [],
     Selected ''B'',
     Socket 1 EvOpen,
     Socket 1 (EvMessage 20 (Parsed (Connected ''B''))),
     Restored (Some segments_payload)]"

text \<open>
  Two segments that both list face 1; the second is of a type the colour table does not
  list, \<open>constructor\<close>.
\<close>

definition odd_type_segments :: SegmentResult where
  "odd_type_segments =
    \<lparr>segments =
      [\<lparr>segment_id = 1, type = ''straight'', face_ids = Some [0, 1]\<rparr>,
       \<lparr>segment_id = 2, type = ''constructor'', face_ids = Some [1]\<rparr>]\<rparr>"

text \<open>Two segments that both list face 1; the second also lists a face the mesh does not have.\<close>

definition two_segments :: SegmentResult where
  "two_segments =
    \<lparr>segments =
      [\<lparr>segment_id = 1, type = ''straight'', face_ids = Some [0, 1]\<rparr>,
       \<lparr>segment_id = 2, type = ''arc'', face_ids = Some [1, 7]\<rparr>]\<rparr>"

text \<open>A mesh of two triangles, shown with \<open>two_segments\<close> at opacity 0.4.\<close>

definition bend_mesh :: SurfaceMesh where
  "bend_mesh =
    \<lparr>vertices = [[0, 0, 0], [1, 0, 0], [0, 1, 0], [1, 1, 0]],
     faces = [[0, 1, 2], [1, 3, 2]]\<rparr>"

definition bend_props :: MeshViewerProps where
  "bend_props =
    \<lparr>uid = ''u'', sessionId = ''s'', segmentResult_prop = Some (5, two_segments),
     highlightIds = (1, []), processing = False, opacity = 2 / 5\<rparr>"

definition bend_shown :: viewer where
  "bend_shown = rerender bend_props (fetch_resolved (7, bend_mesh) (rerender bend_props initial_viewer))"

section \<open>Properties of the session controller\<close>

lemma onmessage_connected_phase:
  "phase (onmessage now (Parsed (Connected sid)) s) =
     (if phase s = ''connecting'' \<or> phase s = ''idle'' then ''connected'' else phase s)"
  by simp






text \<open>
  C2 (result disambiguation). A \<open>result\<close> whose payload has an \<open>answer\<close> member is stored as
  the query result, whatever the expectation flag holds: the phase becomes \<open>query_done\<close>, the
  version counter goes up by one and the segment result is untouched. A \<open>result\<close> without
  \<open>answer\<close> that arrives while the flag is \<open>segment\<close> is stored as the segment result: the
  phase becomes \<open>segment_done\<close> and the query result is untouched. In both cases the flag is
  \<open>null\<close> afterwards.
\<close>

theorem result_disambiguation:
  "(has_field ''answer'' data \<longrightarrow>
      phase (onmessage now (Parsed (Result data)) s) = ''query_done''
      \<and> queryResult (onmessage now (Parsed (Result data)) s) = Some (next_object s, data)
      \<and> queryResultVersion (onmessage now (Parsed (Result data)) s) = queryResultVersion s + 1
      \<and> segmentResult (onmessage now (Parsed (Result data)) s) = segmentResult s
      \<and> expectingRef (onmessage now (Parsed (Result data)) s) = None)
   \<and> (\<not> has_field ''answer'' data \<and> expectingRef s = Some Segment \<longrightarrow>
      phase (onmessage now (Parsed (Result data)) s) = ''segment_done''
      \<and> segmentResult (onmessage now (Parsed (Result data)) s) = Some (next_object s, data)
      \<and> queryResult (onmessage now (Parsed (Result data)) s) = queryResult s
      \<and> queryResultVersion (onmessage now (Parsed (Result data)) s) = queryResultVersion s
      \<and> expectingRef (onmessage now (Parsed (Result data)) s) = None)"
  by simp

theorem result_disambiguation_witness:
  "has_field ''answer'' [(''query'', JStr ''q''), (''answer'', JStr ''a'')]
   \<and> phase (onmessage 3 (Parsed (Result [(''query'', JStr ''q''), (''answer'', JStr ''a'')]))
        (initial_hook\<lparr>expectingRef := Some Segment\<rparr>)) = ''query_done''
   \<and> expectingRef (onmessage 3 (Parsed (Result [(''query'', JStr ''q''), (''answer'', JStr ''a'')]))
        (initial_hook\<lparr>expectingRef := Some Segment\<rparr>)) = None
   \<and> \<not> has_field ''answer'' [(''segments'', JArr [])]
   \<and> phase (onmessage 3 (Parsed (Result [(''segments'', JArr [])]))
        (initial_hook\<lparr>expectingRef := Some Segment\<rparr>)) = ''segment_done''
   \<and> segmentResult (onmessage 3 (Parsed (Result [(''segments'', JArr [])]))
        (initial_hook\<lparr>expectingRef := Some Segment\<rparr>)) = Some (0, [(''segments'', JArr [])])
   \<and> expectingRef (onmessage 3 (Parsed (Result [(''segments'', JArr [])]))
        (initial_hook\<lparr>expectingRef := Some Segment\<rparr>)) = None"
  using result_disambiguation
      [of "[(''query'', JStr ''q''), (''answer'', JStr ''a'')]" 3 "initial_hook\<lparr>expectingRef := Some Segment\<rparr>"]
    result_disambiguation
      [of "[(''segments'', JArr [])]" 3 "initial_hook\<lparr>expectingRef := Some Segment\<rparr>"]
  by (simp add: has_field_def initial_hook_def)

text \<open>
  C5 as the spec states it: every undecodable message moves the phase to \<open>error\<close>. It does
  not: the \<open>catch\<close> around \<open>JSON.parse\<close> logs and returns, so the state is the one before.
  Here an undecodable message arrives on a connection that has just been acknowledged.
\<close>

theorem malformed_message_counterexample:
  "phase (onmessage 7 Unparseable (onmessage 6 (Parsed (Connected ''s'')) (connect '''' ''u'' ''s'' initial_hook)))
     = ''connected''
   \<and> phase (onmessage 7 Unparseable (onmessage 6 (Parsed (Connected ''s'')) (connect '''' ''u'' ''s'' initial_hook)))
     \<noteq> ''error''
   \<and> error (onmessage 7 Unparseable (onmessage 6 (Parsed (Connected ''s'')) (connect '''' ''u'' ''s'' initial_hook)))
     = None"
  by (simp add: connect_def initial_hook_def)

text \<open>
  C5, amended. A server-reported \<open>error\<close> event moves the phase to \<open>error\<close> and puts its
  message in the hook's \<open>error\<close> cell, from any state; a message that \<open>JSON.parse\<close> rejects
  is discarded and leaves the state as it was.
\<close>

theorem protocol_errors:
  "phase (onmessage now (Parsed (Error message)) s) = ''error''
   \<and> error (onmessage now (Parsed (Error message)) s) = Some message
   \<and> onmessage now Unparseable s = s"
  by simp

lemma segmenting_hook_eq:
  "segmenting_hook =
    \<lparr> wsRef = Some 0,
      sockets = [0 \<mapsto> \<lparr>url = ''/ws/u/s'', readyState = OPEN\<rparr>],
      next_socket = 1,
      outbox = [(0, UploadAndSegment 1 16 True)],
      phase = ''segmenting'', progressLog = [], next_object = 0, segmentResult = None,
      queryResult = None, queryResultVersion = 0, error = None, isConnected = True,
      expectingRef = Some Segment \<rparr>"
  by (simp add: segmenting_hook_def triggerSegmentation_def connect_def initial_hook_def
      ready_state_of_def set_ready_def onopen_def ws_open_def ws_send_def getWsUrl_def)

text \<open>
  C7 as the spec states it: \<open>disconnect\<close> clears the expectation flag. It does not: the
  callback closes the socket, nulls \<open>wsRef\<close> and sets two state cells; \<open>expectingRef\<close> is
  written only by \<open>triggerSegmentation\<close>, \<open>sendQuery\<close> and the \<open>result\<close> case. Here a
  segmentation has been started on an open socket and the hook is then disconnected.
\<close>

theorem disconnect_keeps_expecting_counterexample:
  "expectingRef segmenting_hook = Some Segment
   \<and> expectingRef (disconnect segmenting_hook) = Some Segment
   \<and> expectingRef (disconnect segmenting_hook) \<noteq> None"
  by (simp add: segmenting_hook_eq disconnect_def ws_close_def)

text \<open>
  C7, amended. After \<open>disconnect\<close> the hook holds no socket, the socket it held is no longer
  open or connecting (\<open>close()\<close> was called on it), \<open>isConnected\<close> is false and the phase is
  \<open>idle\<close>; the expectation flag keeps the value it had. It keeps it as well when the page
  switches the active session (\<open>handleSelectSession\<close>), which disconnects and then connects
  again, leaving the phase at \<open>connecting\<close>.
\<close>

theorem disconnect_teardown:
  "wsRef (disconnect s) = None
   \<and> phase (disconnect s) = ''idle''
   \<and> \<not> isConnected (disconnect s)
   \<and> expectingRef (disconnect s) = expectingRef s
   \<and> (wsRef s = Some w \<longrightarrow>
        ready_state_of (disconnect s) w \<noteq> Some OPEN
        \<and> ready_state_of (disconnect s) w \<noteq> Some CONNECTING
        \<and> ready_state_of (disconnect s) w = map_option closing (ready_state_of s w))
   \<and> \<not> ws_open (disconnect s)
   \<and> expectingRef (sock (handleSelectSession b u sid d)) = expectingRef (sock d)
   \<and> (activeSession d \<noteq> Some sid \<and> u \<noteq> [] \<longrightarrow>
        phase (sock (handleSelectSession b u sid d)) = ''connecting'')"
proof -
  have a: "ready_state_of (ws_close w s) w = map_option closing (ready_state_of s w)" for w
    by (simp add: ws_close_def ready_state_of_def split: option.splits)
  have b: "closing r \<noteq> OPEN \<and> closing r \<noteq> CONNECTING" for r
    by (cases r) simp_all
  have c: "ready_state_of (t\<lparr>wsRef := x, isConnected := y, phase := z\<rparr>) w = ready_state_of t w"
    for t x y z w
    by (simp add: ready_state_of_def)
  have d: "expectingRef (ws_close w t) = expectingRef t" for w t
    by (simp add: ws_close_def split: option.splits)
  have e: "expectingRef (disconnect t) = expectingRef t" for t
    by (simp add: disconnect_def Let_def d split: option.splits)
  have f: "expectingRef (connect b u sid t) = expectingRef t" for t
    by (simp add: connect_def Let_def d split: option.splits)
  have g: "expectingRef (sock (handleSelectSession b u sid d)) = expectingRef (sock d)"
    by (simp add: handleSelectSession_def Let_def setSegmentResult_def e f)
  have h: "phase (connect b u sid t) = ''connecting''" for t
    by (simp add: connect_def Let_def split: option.splits)
  have i: "activeSession d \<noteq> Some sid \<and> u \<noteq> [] \<longrightarrow>
        phase (sock (handleSelectSession b u sid d)) = ''connecting''"
    by (simp add: handleSelectSession_def Let_def h)
  have "wsRef (disconnect s) = None
   \<and> phase (disconnect s) = ''idle''
   \<and> \<not> isConnected (disconnect s)
   \<and> expectingRef (disconnect s) = expectingRef s
   \<and> (wsRef s = Some w \<longrightarrow>
        ready_state_of (disconnect s) w \<noteq> Some OPEN
        \<and> ready_state_of (disconnect s) w \<noteq> Some CONNECTING
        \<and> ready_state_of (disconnect s) w = map_option closing (ready_state_of s w))
   \<and> \<not> ws_open (disconnect s)"
    using a b
    by (cases "wsRef s") (auto simp: disconnect_def c d ws_open_def Let_def)
  with g i show ?thesis by blast
qed

theorem disconnect_teardown_witness:
  "wsRef segmenting_hook = Some 0
   \<and> wsRef (disconnect segmenting_hook) = None
   \<and> phase (disconnect segmenting_hook) = ''idle''
   \<and> \<not> isConnected (disconnect segmenting_hook)
   \<and> expectingRef (disconnect segmenting_hook) = Some Segment
   \<and> ready_state_of (disconnect segmenting_hook) 0 = Some CLOSING
   \<and> activeSession page_segmenting = Some ''A''
   \<and> expectingRef (sock page_segmenting) = Some Segment
   \<and> expectingRef (sock (handleSelectSession [] ''u'' ''B'' page_segmenting)) = Some Segment
   \<and> phase (sock (handleSelectSession [] ''u'' ''B'' page_segmenting)) = ''connecting''"
proof -
  have page: "activeSession page_segmenting = Some ''A''"
    "expectingRef (sock page_segmenting) = Some Segment"
    by code_simp+
  show ?thesis
    using disconnect_teardown [of segmenting_hook 0 "[]" "''u''" "''B''" page_segmenting] page
    by (simp add: segmenting_hook_eq ready_state_of_def)
qed

text \<open>
  C8 as the spec states it: a close with any code other than 4001 surfaces a generic
  connectivity error. \<open>ws.onclose\<close> does not: for such a code it only clears
  \<open>isConnected\<close>. Here the server closes an open, acknowledged socket with code 1011.
\<close>

theorem other_close_code_counterexample:
  "error (deliver 0 (EvClose 1011) segmenting_hook) = None
   \<and> phase (deliver 0 (EvClose 1011) segmenting_hook) = ''segmenting''
   \<and> phase (deliver 0 (EvClose 1011) segmenting_hook) \<noteq> ''error''
   \<and> \<not> isConnected (deliver 0 (EvClose 1011) segmenting_hook)"
  by (simp add: segmenting_hook_eq ready_state_of_def set_ready_def onclose_def)

text \<open>
  C8, amended. A close with code 4001 sets the error cell to the re-authentication message
  and the phase to \<open>error\<close>; a close with any other code leaves the error cell and the
  phase as they were; both clear \<open>isConnected\<close>. The generic connectivity message comes
  from the socket's \<open>error\<close> event, which sets it and moves the phase to \<open>error\<close>.
\<close>

theorem close_handling:
  "error (onclose 4001 s) = Some ''Authentication failed. Please sign in again.''
   \<and> phase (onclose 4001 s) = ''error''
   \<and> (code \<noteq> 4001 \<longrightarrow> error (onclose code s) = error s \<and> phase (onclose code s) = phase s)
   \<and> \<not> isConnected (onclose code s)
   \<and> error (onerror s) = Some ''WebSocket connection failed.''
   \<and> phase (onerror s) = ''error''
   \<and> \<not> isConnected (onerror s)"
  by (simp add: onclose_def onerror_def Let_def)

theorem close_handling_witness:
  "error (onclose 4001 segmenting_hook) = Some ''Authentication failed. Please sign in again.''
   \<and> phase (onclose 4001 segmenting_hook) = ''error''
   \<and> (1006::int) \<noteq> 4001
   \<and> error (onclose 1006 segmenting_hook) = None
   \<and> phase (onclose 1006 segmenting_hook) = ''segmenting''
   \<and> \<not> isConnected (onclose 1006 segmenting_hook)"
  using close_handling [of segmenting_hook 1006]
  by (simp add: segmenting_hook_eq)

text \<open>
  C10 (progress events are unvalidated). A \<open>progress\<close> event appends exactly one entry to
  the progress log, holding the event's step, detail and explanation and the time of
  handling, and makes the step string the phase, whatever the phase was and whatever the
  string is. The string \<open>warp_drive\<close> is no member of \<open>PipelinePhase\<close> and becomes the
  phase all the same.
\<close>

theorem progress_unvalidated:
  "progressLog (onmessage now (Parsed (Progress stp det expl)) s)
     = progressLog s @ [\<lparr>step = stp, detail = det, explanation = expl, timestamp = now\<rparr>]
   \<and> length (progressLog (onmessage now (Parsed (Progress stp det expl)) s)) = Suc (length (progressLog s))
   \<and> phase (onmessage now (Parsed (Progress stp det expl)) s) = stp
   \<and> ''warp_drive'' \<notin> set PipelinePhase_values
   \<and> phase (onmessage now (Parsed (Progress ''warp_drive'' det expl)) s) = ''warp_drive''"
  by (simp add: PipelinePhase_values_def)

section \<open>Properties of the page\<close>

subsection \<open>Nothing but the two effects and the chat box sends\<close>

lemma outbox_ws_close [simp]: "outbox (ws_close w s) = outbox s"
  by (simp add: ws_close_def split: option.splits)

lemma outbox_set_ready [simp]: "outbox (set_ready w r s) = outbox s"
  by (simp add: set_ready_def split: option.splits)

lemma outbox_disconnect [simp]: "outbox (disconnect s) = outbox s"
  by (simp add: disconnect_def Let_def split: option.splits)

lemma outbox_unmount [simp]: "outbox (unmount s) = outbox s"
  by (simp add: unmount_def split: option.splits)

lemma outbox_connect [simp]: "outbox (connect b u sid s) = outbox s"
  by (simp add: connect_def Let_def split: option.splits)

lemma phase_connect [simp]: "phase (connect b u sid s) = ''connecting''"
  by (simp add: connect_def Let_def split: option.splits)

lemma outbox_onmessage [simp]: "outbox (onmessage now raw s) = outbox s"
proof (cases raw)
  case Unparseable
  then show ?thesis by simp
next
  case (Parsed msg)
  then show ?thesis by (cases msg) simp_all
qed

lemma outbox_deliver [simp]: "outbox (deliver w ev s) = outbox s"
  by (cases ev) (simp_all add: onopen_def onclose_def onerror_def Let_def)

lemma handle_unprompted:
  assumes "unprompted ev"
  shows "outbox (sock (handle b u ev d)) = outbox (sock d)
         \<and> freshSegmentationRef (handle b u ev d) = freshSegmentationRef d
         \<and> needsSegmentationRef (handle b u ev d) = needsSegmentationRef d"
proof (cases ev)
  case (Created sid p)
  with assms show ?thesis by simp
next
  case (Selected sid)
  then show ?thesis
    by (simp add: handleSelectSession_def Let_def setSegmentResult_def)
next
  case (Restored segs)
  then show ?thesis
    by (simp add: session_data_loaded_def Let_def setSegmentResult_def setPhase_def
        split: option.splits)
next
  case (Typed x)
  with assms show ?thesis by simp
next
  case (Socket w e)
  then show ?thesis by simp
qed

subsection \<open>Rendering settles\<close>

lemma effects_pass_idle:
  assumes "\<not> freshSegmentationRef d" "\<not> needsSegmentationRef d"
  shows "effects_pass d =
           d\<lparr>segment_done_deps := Some (segment_done_now d),
              auto_trigger_deps := Some (auto_trigger_now d)\<rparr>"
  using assms
  by (simp add: effects_pass_def segment_done_effect_def auto_trigger_effect_def Let_def)

lemma effects_pass_quiet:
  assumes "phase (sock d) \<noteq> ''connected''" "phase (sock d) \<noteq> ''segment_done''"
  shows "effects_pass d =
           d\<lparr>segment_done_deps := Some (segment_done_now d),
              auto_trigger_deps := Some (auto_trigger_now d)\<rparr>"
  using assms
  by (simp add: effects_pass_def segment_done_effect_def auto_trigger_effect_def Let_def)

lemma effects_pass_deps:
  "segment_done_deps (effects_pass d) = Some (segment_done_now d)
   \<and> auto_trigger_deps (effects_pass d) = Some (auto_trigger_now d)
   \<and> activeSession (effects_pass d) = activeSession d"
  by (simp add: effects_pass_def segment_done_effect_def auto_trigger_effect_def Let_def)

lemma sendQuery_phase:
  "sendQuery q s = s \<or> phase (sendQuery q s) = ''parsing_query''"
  by (simp add: sendQuery_def ws_send_def Let_def split: option.splits)

lemma triggerSegmentation_phase:
  "triggerSegmentation opts s = s \<or> phase (triggerSegmentation opts s) = ''segmenting''"
  by (simp add: triggerSegmentation_def ws_send_def Let_def split: option.splits)

lemma effects_pass_sock:
  "sock (effects_pass d) = sock d
   \<or> phase (sock (effects_pass d)) = ''parsing_query''
   \<or> phase (sock (effects_pass d)) = ''segmenting''"
proof -
  have "sock (effects_pass d) = sock d
        \<or> sock (effects_pass d) = sendQuery (auto_prompt (pendingPromptRef d)) (sock d)
        \<or> sock (effects_pass d) = triggerSegmentation None (sock d)"
    by (simp add: effects_pass_def segment_done_effect_def auto_trigger_effect_def Let_def)
  then show ?thesis
    using sendQuery_phase [of "auto_prompt (pendingPromptRef d)" "sock d"]
      triggerSegmentation_phase [of None "sock d"]
    by auto
qed

lemma render_throws_deps_only:
  "render_throws (d\<lparr>segment_done_deps := x, auto_trigger_deps := y\<rparr>) = render_throws d"
  by (simp add: render_throws_def)

lemma stale_after_deps:
  "\<not> stale (d\<lparr>segment_done_deps := Some (segment_done_now d),
                auto_trigger_deps := Some (auto_trigger_now d)\<rparr>)"
  by (simp add: stale_def segment_done_now_def auto_trigger_now_def)

lemma render_throws_crash: "render_throws (crash d) = render_throws d"
  by (simp add: render_throws_def crash_def unmount_def ws_close_def split: option.splits)

lemma crash_crash: "crash (crash d) = crash d"
  by (simp add: crash_def unmount_def split: option.splits)

lemma settle_thrown:
  assumes "render_throws d"
  shows "settle n (crash d) = crash d"
  using assms by (cases n) (simp_all add: render_throws_crash crash_crash)

lemma settle_settled:
  assumes "\<not> render_throws d" "\<not> stale d"
  shows "settle n d = d"
  using assms by (cases n) simp_all

text \<open>
  Two renders with effects to run are enough: what \<open>settle 2\<close> returns is a page that threw
  and is unmounted, or one that renders without throwing and has no effect left to run;
  rendering it again changes nothing.
\<close>

lemma settle_reaches_fixpoint:
  "(render_throws (settle 2 d) \<and> \<not> mounted (settle 2 d)
      \<or> \<not> render_throws (settle 2 d) \<and> \<not> stale (settle 2 d))
   \<and> settle n (settle 2 d) = settle 2 d"
proof -
  let ?d1 = "effects_pass d"
  let ?d2 = "effects_pass ?d1"
  have thrown: "(render_throws (crash x) \<and> \<not> mounted (crash x)
      \<or> \<not> render_throws (crash x) \<and> \<not> stale (crash x))
   \<and> settle n (crash x) = crash x" if "render_throws x" for x
    using that settle_thrown [OF that, of n] by (simp add: render_throws_crash) (simp add: crash_def)
  have settled: "(render_throws x \<and> \<not> mounted x \<or> \<not> render_throws x \<and> \<not> stale x)
   \<and> settle n x = x" if "\<not> render_throws x" "\<not> stale x" for x
    using that settle_settled [OF that, of n] by simp
  consider (crash0) "render_throws d"
    | (still) "\<not> render_throws d" "\<not> stale d"
    | (crash1) "\<not> render_throws d" "stale d" "render_throws ?d1"
    | (once) "\<not> render_throws d" "stale d" "\<not> render_throws ?d1" "\<not> stale ?d1"
    | (twice) "\<not> render_throws d" "stale d" "\<not> render_throws ?d1" "stale ?d1"
    by blast
  then show ?thesis
  proof cases
    case crash0
    then have "settle 2 d = crash d"
      by (simp add: numeral_2_eq_2)
    then show ?thesis
      using thrown [OF crash0] by simp
  next
    case still
    then have "settle 2 d = d"
      by (simp add: numeral_2_eq_2)
    then show ?thesis
      using settled [OF still] by simp
  next
    case crash1
    then have "settle 2 d = crash ?d1"
      by (simp add: numeral_2_eq_2)
    then show ?thesis
      using thrown [OF crash1(3)] by simp
  next
    case once
    then have "settle 2 d = ?d1"
      by (simp add: numeral_2_eq_2)
    then show ?thesis
      using settled [OF once(3,4)] by simp
  next
    case twice
    have "sock ?d1 \<noteq> sock d"
      using twice(4) effects_pass_deps [of d]
      by (auto simp: stale_def segment_done_now_def auto_trigger_now_def)
    then have "phase (sock ?d1) = ''parsing_query'' \<or> phase (sock ?d1) = ''segmenting''"
      using effects_pass_sock [of d] by blast
    then have "phase (sock ?d1) \<noteq> ''connected''" "phase (sock ?d1) \<noteq> ''segment_done''"
      by auto
    then have d2: "?d2 = ?d1\<lparr>segment_done_deps := Some (segment_done_now ?d1),
                            auto_trigger_deps := Some (auto_trigger_now ?d1)\<rparr>"
      by (rule effects_pass_quiet)
    have fresh: "\<not> stale ?d2"
      unfolding d2 by (rule stale_after_deps)
    have quiet: "\<not> render_throws ?d2"
      unfolding d2 using twice(3) by (simp add: render_throws_deps_only)
    have "settle 2 d = ?d2"
      using twice by (simp add: numeral_2_eq_2)
    then show ?thesis
      using settled [OF quiet fresh] by simp
  qed
qed

lemma settle_idle:
  assumes "\<not> freshSegmentationRef d" "\<not> needsSegmentationRef d"
  shows "outbox (sock (settle n d)) = outbox (sock d)
         \<and> \<not> freshSegmentationRef (settle n d)
         \<and> \<not> needsSegmentationRef (settle n d)"
  using assms
proof (induction n arbitrary: d)
  case 0
  then show ?case by simp
next
  case (Suc n)
  let ?e = "effects_pass d"
  have e: "?e = d\<lparr>segment_done_deps := Some (segment_done_now d),
                     auto_trigger_deps := Some (auto_trigger_now d)\<rparr>"
    using Suc.prems by (rule effects_pass_idle)
  have "\<not> freshSegmentationRef ?e" "\<not> needsSegmentationRef ?e" "sock ?e = sock d"
    using Suc.prems by (simp_all add: e)
  then show ?case
    using Suc.IH [of ?e] Suc.prems by (simp add: crash_def)
qed

subsection \<open>With no flag set nothing is sent unprompted\<close>

lemma dispatch_unprompted:
  assumes "unprompted ev" "\<not> freshSegmentationRef d" "\<not> needsSegmentationRef d"
  shows "outbox (sock (dispatch b u ev d)) = outbox (sock d)
         \<and> \<not> freshSegmentationRef (dispatch b u ev d)
         \<and> \<not> needsSegmentationRef (dispatch b u ev d)"
proof (cases "mounted d")
  case False
  with assms show ?thesis by (simp add: dispatch_def)
next
  case True
  let ?h = "handle b u ev d"
  have h: "outbox (sock ?h) = outbox (sock d)" "\<not> freshSegmentationRef ?h"
    "\<not> needsSegmentationRef ?h"
    using handle_unprompted [OF assms(1), of b u d] assms(2,3) by simp_all
  show ?thesis
    using settle_idle [OF h(2,3), of 2] h(1) True by (simp add: dispatch_def)
qed

lemma run_unprompted:
  assumes "\<forall>ev\<in>set evs. unprompted ev" "\<not> freshSegmentationRef d" "\<not> needsSegmentationRef d"
  shows "outbox (sock (run b u evs d)) = outbox (sock d)
         \<and> \<not> freshSegmentationRef (run b u evs d)
         \<and> \<not> needsSegmentationRef (run b u evs d)"
  using assms
proof (induction evs arbitrary: d)
  case Nil
  then show ?case by (simp add: run_def)
next
  case (Cons ev evs)
  have s: "outbox (sock (dispatch b u ev d)) = outbox (sock d)"
    "\<not> freshSegmentationRef (dispatch b u ev d)" "\<not> needsSegmentationRef (dispatch b u ev d)"
    using dispatch_unprompted [of ev d b u] Cons.prems by simp_all
  have "run b u (ev # evs) d = run b u evs (dispatch b u ev d)"
    by (simp add: run_def)
  then show ?case
    using Cons.IH [of "dispatch b u ev d"] Cons.prems(1) s by simp
qed

subsection \<open>A fresh session\<close>

text \<open>
  In \<open>fresh_trace\<close> the page sends one segmentation command when the socket is
  acknowledged and one query when the result arrives. The query is the prompt without the
  white space around it; a prompt of white space only, here a space and a no-break space,
  counts as no prompt. Restoring another session afterwards sends nothing.
\<close>

lemma fresh_session_one_query:
  "outbox (sock page_opened) = []
   \<and> outbox (sock page_segmenting) = [(0, UploadAndSegment 1 16 True)]
   \<and> outbox (sock page_described) = [(0, UploadAndSegment 1 16 True), (0, Query (ascii ''hi''))]
   \<and> mounted page_described
   \<and> outbox (sock (run [] ''u'' (fresh_trace [0x20, 0xA0]) initial_dashboard))
       = [(0, UploadAndSegment 1 16 True), (0, Query (ascii ''describe this geometry''))]
   \<and> outbox (sock (run [] ''u'' restore_trace page_described)) = outbox (sock page_described)"
  by code_simp

text \<open>
  A result whose summary lacks \<open>counts_by_type\<close> makes the next render throw: the page is
  unmounted, its socket closed, and the query is never sent.
\<close>

lemma malformed_summary_unmounts:
  "\<not> mounted (dispatch [] ''u''
        (Socket 0 (EvMessage 30 (Parsed (Result [(''segments'', JArr []), (''summary'', JObj [])]))))
        page_segmenting)
   \<and> outbox (sock (dispatch [] ''u''
        (Socket 0 (EvMessage 30 (Parsed (Result [(''segments'', JArr []), (''summary'', JObj [])]))))
        page_segmenting)) = [(0, UploadAndSegment 1 16 True)]
   \<and> wsRef (sock (dispatch [] ''u''
        (Socket 0 (EvMessage 30 (Parsed (Result [(''segments'', JArr []), (''summary'', JObj [])]))))
        page_segmenting)) = None"
  by code_simp

subsection \<open>A restored session\<close>

text \<open>
  The needs-segmentation flag is left over as well when the user leaves the new session
  before its socket is acknowledged. In \<open>early_switch_trace\<close> the acknowledgment of
  session \<open>B\<close> then starts a segmentation of \<open>B\<close>, and the saved segments of \<open>B\<close>, arriving
  next, release the automatic query.
\<close>

lemma leftover_flag_segments_restored_session:
  "outbox (sock (run [] ''u'' (take 2 early_switch_trace) initial_dashboard)) = []
   \<and> needsSegmentationRef (run [] ''u'' (take 2 early_switch_trace) initial_dashboard)
   \<and> activeSession (run [] ''u'' early_switch_trace initial_dashboard) = Some ''B''
   \<and> outbox (sock (run [] ''u'' early_switch_trace initial_dashboard))
       = [(1, UploadAndSegment 1 16 True), (1, Query (ascii ''describe this geometry''))]"
  by code_simp

text \<open>
  C3 (auto-query-once: a restored session never gets an automatic query). The page does
  send one. Both one-shot flags are refs of the page, not of a session, and
  \<open>handleSelectSession\<close> resets neither. In \<open>switch_trace\<close> the user uploads a mesh,
  session \<open>A\<close> is acknowledged and its segmentation starts, which sets the
  fresh-segmentation flag; before the result arrives the user opens the older session \<open>B\<close>
  from the history. No segmentation is started for \<open>B\<close>. When the saved segments of \<open>B\<close>
  arrive through the fetch path the flag is still set, and the page sends
  \<open>describe this geometry\<close> on the socket of \<open>B\<close>.
\<close>

theorem leftover_flag_queries_restored_session:
  "freshSegmentationRef (run [] ''u'' (take 6 switch_trace) initial_dashboard)
   \<and> activeSession (run [] ''u'' (take 6 switch_trace) initial_dashboard) = Some ''B''
   \<and> segmentResult (sock (run [] ''u'' (take 6 switch_trace) initial_dashboard)) = None
   \<and> outbox (sock (run [] ''u'' (take 6 switch_trace) initial_dashboard))
       = [(0, UploadAndSegment 1 16 True)]
   \<and> mounted (run [] ''u'' switch_trace initial_dashboard)
   \<and> activeSession (run [] ''u'' switch_trace initial_dashboard) = Some ''B''
   \<and> wsRef (sock (run [] ''u'' switch_trace initial_dashboard)) = Some 1
   \<and> segmentResult (sock (run [] ''u'' switch_trace initial_dashboard)) = Some (0, segments_payload)
   \<and> outbox (sock (run [] ''u'' switch_trace initial_dashboard))
       = [(0, UploadAndSegment 1 16 True), (1, Query (ascii ''describe this geometry''))]"
  by code_simp

section \<open>Properties of the render engine\<close>

subsection \<open>Stores stay inside the buffer\<close>

lemma length_u8_store [simp]: "length (u8_store buf i v) = length buf"
  by (simp add: u8_store_def)

lemma length_put_rgb [simp]: "length (put_rgb f c buf) = length buf"
  by (cases c) simp

lemma unat_u8: "v < 256 \<Longrightarrow> unat (of_nat v :: 8 word) = v"
  by (simp add: unat_of_nat)

lemma face_rgb_put_rgb:
  assumes "length buf = n * 3" "f < n" "byte_rgb c"
  shows "face_rgb (put_rgb g c buf) f = (if g = int f then c else face_rgb buf f)"
proof (cases c)
  case (fields r gr b)
  with assms(3) have bytes: "r < 256" "gr < 256" "b < 256"
    by (simp_all add: byte_rgb_def)
  show ?thesis
  proof (cases "0 \<le> g \<and> g < int n")
    case True
    then have "g = int (nat g)" "nat g < n"
      by auto
    then obtain k where k: "g = int k" "k < n"
      by blast
    show ?thesis
      using assms(1,2) k bytes fields
      by (auto simp: face_rgb_def u8_store_def nth_list_update unat_u8 nat_add_distrib nat_mult_distrib)
  next
    case False
    then have "g \<noteq> int f" using assms(2) by auto
    moreover have "put_rgb g c buf = buf \<or> g < 0"
      using False assms(1) fields by (auto simp: u8_store_def)
    ultimately show ?thesis
      using False assms(1) fields
      by (auto simp: u8_store_def)
  qed
qed


lemma byte_rgb_segment_color: "byte_rgb (elements (segment_color hl seg))"
  by (simp add: segment_color_def byte_rgb_def SEGMENT_COLORS_def SEGMENT_COLORS_own_def
      HIGHLIGHT_COLOR_def DEFAULT_MESH_COLOR_def)

lemma length_paint_face [simp]: "length (paint_face n c g buf) = length buf"
  by (simp add: paint_face_def)

lemma length_fold_paint_face [simp]: "length (fold (paint_face n c) ids buf) = length buf"
  by (induction ids arbitrary: buf) simp_all

lemma length_paint_segment [simp]: "length (paint_segment n hl seg buf) = length buf"
  by (simp add: paint_segment_def Let_def split: option.splits)

lemma length_fold_paint_segment [simp]:
  "length (fold (paint_segment n hl) segs buf) = length buf"
  by (induction segs arbitrary: buf) simp_all

lemma length_default_colors_aux:
  "length (fold (\<lambda>i. put_rgb (int i) c) is buf) = length buf"
  by (induction "is" arbitrary: buf) simp_all

lemma length_default_colors [simp]: "length (default_colors n) = n * 3"
  by (simp add: default_colors_def length_default_colors_aux)

lemma length_color_faces: "length (color_faces n sr hl) = n * 3"
  by (simp add: color_faces_def split: option.splits)

lemma face_rgb_paint_face:
  assumes "length buf = n * 3" "f < n" "byte_rgb c"
  shows "face_rgb (paint_face n c g buf) f = (if g = int f then c else face_rgb buf f)"
  using assms by (simp add: paint_face_def face_rgb_put_rgb)

lemma face_rgb_fold_paint_face:
  assumes "length buf = n * 3" "f < n" "byte_rgb c"
  shows "face_rgb (fold (paint_face n c) ids buf) f = (if int f \<in> set ids then c else face_rgb buf f)"
  using assms(1)
proof (induction ids arbitrary: buf rule: rev_induct)
  case Nil
  then show ?case by simp
next
  case (snoc g ids)
  have "length (fold (paint_face n c) ids buf) = n * 3"
    using snoc.prems by simp
  then show ?case
    using snoc assms(2,3) by (simp add: face_rgb_paint_face)
qed

lemma face_rgb_paint_segment:
  assumes "length buf = n * 3" "f < n"
  shows "face_rgb (paint_segment n hl seg buf) f =
           (if int f \<in> face_set seg then elements (segment_color hl seg) else face_rgb buf f)"
  using assms
  by (auto simp: paint_segment_def face_set_def Let_def face_rgb_fold_paint_face
      byte_rgb_segment_color split: option.splits)

lemma face_rgb_fold_paint_segment:
  assumes "length buf = n * 3" "f < n"
  shows "face_rgb (fold (paint_segment n hl) segs buf) f =
           (let hits = filter (\<lambda>s. int f \<in> face_set s) segs
            in if hits = [] then face_rgb buf f else elements (segment_color hl (last hits)))"
proof (induction segs rule: rev_induct)
  case Nil
  then show ?case by simp
next
  case (snoc seg segs)
  have "length (fold (paint_segment n hl) segs buf) = n * 3"
    using assms(1) by simp
  then show ?case
    using snoc assms(2)
    by (simp add: face_rgb_paint_segment Let_def)
qed

lemma face_rgb_default_aux:
  assumes "length buf = n * 3" "f < n"
  shows "face_rgb (fold (\<lambda>i. put_rgb (int i) DEFAULT_MESH_COLOR) is buf) f =
           (if f \<in> set is then DEFAULT_MESH_COLOR else face_rgb buf f)"
  using assms(1)
proof (induction "is" arbitrary: buf rule: rev_induct)
  case Nil
  then show ?case by simp
next
  case (snoc i "is")
  have "length (fold (\<lambda>i. put_rgb (int i) DEFAULT_MESH_COLOR) is buf) = n * 3"
    using snoc.prems by (simp add: length_default_colors_aux)
  moreover have "byte_rgb DEFAULT_MESH_COLOR"
    by (simp add: byte_rgb_def DEFAULT_MESH_COLOR_def)
  ultimately show ?case
    using snoc assms(2) by (simp add: face_rgb_put_rgb)
qed

lemma face_rgb_default_colors:
  "f < n \<Longrightarrow> face_rgb (default_colors n) f = DEFAULT_MESH_COLOR"
  by (simp add: default_colors_def face_rgb_default_aux)

lemma face_rgb_color_faces:
  assumes "f < n"
  shows "face_rgb (color_faces n (Some r) hl) f =
           (let hits = filter (\<lambda>s. int f \<in> face_set s) (segments r)
            in if hits = [] then DEFAULT_MESH_COLOR else elements (segment_color hl (last hits)))"
  using assms
  by (simp add: color_faces_def face_rgb_fold_paint_segment face_rgb_default_colors Let_def)


lemma last_hit:
  assumes "P b" "\<forall>s\<in>set post. \<not> P s"
  shows "filter P (pre @ a # mid @ b # post) \<noteq> []
         \<and> last (filter P (pre @ a # mid @ b # post)) = b"
proof -
  have "filter P post = []"
    using assms(2) by (simp add: filter_empty_conv)
  then show ?thesis
    using assms(1) by simp
qed

text \<open>
  Last write wins, for every face \<open>f\<close> of the mesh: the colour in the buffer is the one
  stored for the last segment, in the order of the result, whose face ids contain \<open>f\<close>, and
  the default colour when no segment lists \<open>f\<close>. Of two segments that both list \<open>f\<close>, with
  no later segment listing it, the later one gives \<open>f\<close> its colour.
\<close>

lemma last_segment_colours_face:
  assumes "f < n"
  shows "face_rgb (color_faces n (Some r) hl) f =
           (let hits = filter (\<lambda>s. int f \<in> face_set s) (segments r)
            in if hits = [] then DEFAULT_MESH_COLOR else elements (segment_color hl (last hits)))
         \<and> (segments r = pre @ a # mid @ b # post \<and> int f \<in> face_set a \<and> int f \<in> face_set b
              \<and> (\<forall>s\<in>set post. int f \<notin> face_set s)
            \<longrightarrow> face_rgb (color_faces n (Some r) hl) f = elements (segment_color hl b))"
proof -
  have general: "face_rgb (color_faces n (Some r) hl) f =
           (let hits = filter (\<lambda>s. int f \<in> face_set s) (segments r)
            in if hits = [] then DEFAULT_MESH_COLOR else elements (segment_color hl (last hits)))"
    using assms by (rule face_rgb_color_faces)
  have two: "face_rgb (color_faces n (Some r) hl) f = elements (segment_color hl b)"
    if "segments r = pre @ a # mid @ b # post" "int f \<in> face_set b"
       "\<forall>s\<in>set post. int f \<notin> face_set s"
  proof -
    have "filter (\<lambda>s. int f \<in> face_set s) (segments r) \<noteq> []
          \<and> last (filter (\<lambda>s. int f \<in> face_set s) (segments r)) = b"
      unfolding that(1) using that(2,3) by (rule last_hit)
    then show ?thesis
      using general by (simp add: Let_def)
  qed
  show ?thesis
    using general two by blast
qed

text \<open>
  What is stored for a segment: the highlight colour when its id is among the highlight
  ids, else the table entry of its type, else black for a type that names a member of
  \<open>Object.prototype\<close>, else the default colour.
\<close>

lemma stored_colour_rule:
  "elements (segment_color hl b) =
     (if segment_id b \<in> set hl then HIGHLIGHT_COLOR
      else if type b = ''straight'' then (90, 178, 242)
      else if type b = ''arc'' then (242, 140, 90)
      else if type b = ''junction'' then (110, 210, 110)
      else if type b = ''corner'' then (230, 100, 140)
      else if type b \<in> set Object_prototype_members then (0, 0, 0)
      else DEFAULT_MESH_COLOR)"
  by (simp add: segment_color_def SEGMENT_COLORS_def SEGMENT_COLORS_own_def)

text \<open>
  C6 (face colour, last write wins, with the default colour for unrecognised types). The
  order rule holds as stated (\<open>last_segment_colours_face\<close>). The colour rule does not: the
  fallback \<open>|| DEFAULT_MESH_COLOR\<close> is meant for every type outside the table, but the
  table is read with \<open>SEGMENT_COLORS[seg.type]\<close>, which also finds what the object
  inherits. In \<open>odd_type_segments\<close> the later of two segments listing face 1 has the type
  \<open>constructor\<close>, which the table does not list, and is not highlighted: face 1 takes that
  segment's colour, and the colour is black, not the default; face 0 has the colour of
  \<open>straight\<close>.
\<close>

theorem inherited_type_painted_black:
  "map type (segments odd_type_segments) = [''straight'', ''constructor'']
   \<and> SEGMENT_COLORS_own ''constructor'' = None
   \<and> face_rgb (color_faces 2 (Some odd_type_segments) []) 0 = (90, 178, 242)
   \<and> face_rgb (color_faces 2 (Some odd_type_segments) []) 1 = (0, 0, 0)
   \<and> face_rgb (color_faces 2 (Some odd_type_segments) []) 1 \<noteq> DEFAULT_MESH_COLOR"
proof -
  have buf: "color_faces 2 (Some odd_type_segments) [] = [90, 178, 242, 0, 0, 0]"
    by code_simp
  have types: "map type (segments odd_type_segments) = [''straight'', ''constructor'']"
    by (simp add: odd_type_segments_def)
  have own: "SEGMENT_COLORS_own ''constructor'' = None"
    by (simp add: SEGMENT_COLORS_own_def)
  have f0: "face_rgb (color_faces 2 (Some odd_type_segments) []) 0 = (90, 178, 242)"
    unfolding buf by (simp add: face_rgb_def)
  have f1: "face_rgb (color_faces 2 (Some odd_type_segments) []) 1 = (0, 0, 0)"
    unfolding buf by (simp add: face_rgb_def)
  show ?thesis
    unfolding f0 f1 using types own by (simp add: DEFAULT_MESH_COLOR_def)
qed

subsection \<open>Face ids outside the mesh, highlight ids outside the result\<close>

lemma paint_face_skip: "\<not> g < int n \<Longrightarrow> paint_face n c g buf = buf"
  by (simp add: paint_face_def)

lemma fold_paint_face_filter:
  "fold (paint_face n c) (filter (\<lambda>g. g < int n) ids) buf = fold (paint_face n c) ids buf"
  by (induction ids arbitrary: buf) (simp_all add: paint_face_skip)

lemma fold_paint_face_Nil_filter:
  "filter (\<lambda>g. g < int n) ids = [] \<Longrightarrow> fold (paint_face n c) ids buf = buf"
  using fold_paint_face_filter [of n c ids buf] by simp

lemma paint_segment_clip:
  "paint_segment n hl (clip_face_ids n seg) buf = paint_segment n hl seg buf"
proof (cases "face_ids seg")
  case None
  then show ?thesis
    by (simp add: paint_segment_def clip_face_ids_def)
next
  case (Some ids)
  have col: "segment_color hl (clip_face_ids n seg) = segment_color hl seg"
    by (simp add: segment_color_def clip_face_ids_def)
  show ?thesis
    using Some col
    by (cases "filter (\<lambda>g. g < int n) ids = []")
      (auto simp: paint_segment_def clip_face_ids_def Let_def fold_paint_face_filter
        fold_paint_face_Nil_filter)
qed

lemma fold_paint_segment_clip:
  "fold (paint_segment n hl) (map (clip_face_ids n) segs) buf = fold (paint_segment n hl) segs buf"
  by (induction segs arbitrary: buf) (simp_all add: paint_segment_clip)

lemma segment_color_drop_highlight:
  "segment_id seg \<noteq> h \<Longrightarrow> segment_color (pre @ h # post) seg = segment_color (pre @ post) seg"
  by (simp add: segment_color_def)

lemma paint_segment_drop_highlight:
  "segment_id seg \<noteq> h \<Longrightarrow>
     paint_segment n (pre @ h # post) seg buf = paint_segment n (pre @ post) seg buf"
  by (simp add: paint_segment_def segment_color_drop_highlight)

lemma fold_paint_segment_drop_highlight:
  "h \<notin> segment_id ` set segs \<Longrightarrow>
     fold (paint_segment n (pre @ h # post)) segs buf = fold (paint_segment n (pre @ post)) segs buf"
proof (induction segs arbitrary: buf)
  case Nil
  then show ?case by simp
next
  case (Cons seg segs)
  then have "segment_id seg \<noteq> h" "h \<notin> segment_id ` set segs"
    by auto
  then show ?case
    using Cons.IH by (simp add: paint_segment_drop_highlight)
qed

lemma paint_face_negative: "g < 0 \<Longrightarrow> paint_face n c g buf = buf"
  by (cases c) (simp add: paint_face_def u8_store_def)

text \<open>
  C9 (face-index bounds safety). The colouring is a total function and the buffer keeps its
  length of three bytes per face. A face id at or beyond the face count is skipped: the
  buffer is the one obtained with those ids removed from every segment. A face id that
  passes the guard and is not negative is stored at positions inside the buffer; a negative
  one passes the guard, and its stores, at indices the array does not have, change nothing.
  A highlight id that is the id of no segment is ignored: the buffer is the one obtained
  without it.
\<close>

theorem face_index_bounds_safety:
  "length (color_faces n sr hl) = n * 3
   \<and> color_faces n (Some r) hl = color_faces n (Some (r\<lparr>segments := map (clip_face_ids n) (segments r)\<rparr>)) hl
   \<and> (\<not> g < int n \<longrightarrow> paint_face n c g buf = buf)
   \<and> (0 \<le> g \<and> g < int n \<longrightarrow> g * 3 + 2 < int (length (color_faces n sr hl)))
   \<and> (g < 0 \<longrightarrow> paint_face n c g buf = buf)
   \<and> (h \<notin> segment_id ` set (segments r) \<longrightarrow>
        color_faces n (Some r) (pre @ h # post) = color_faces n (Some r) (pre @ post))"
proof -
  have len: "length (color_faces n sr hl) = n * 3"
    by (rule length_color_faces)
  have clip: "color_faces n (Some r) hl
                = color_faces n (Some (r\<lparr>segments := map (clip_face_ids n) (segments r)\<rparr>)) hl"
    by (simp add: color_faces_def fold_paint_segment_clip)
  have skip: "\<not> g < int n \<longrightarrow> paint_face n c g buf = buf"
    by (simp add: paint_face_skip)
  have inside: "0 \<le> g \<and> g < int n \<longrightarrow> g * 3 + 2 < int (length (color_faces n sr hl))"
    unfolding len by auto
  have negative: "g < 0 \<longrightarrow> paint_face n c g buf = buf"
    by (simp add: paint_face_negative)
  have ignore: "h \<notin> segment_id ` set (segments r) \<longrightarrow>
        color_faces n (Some r) (pre @ h # post) = color_faces n (Some r) (pre @ post)"
    by (simp add: color_faces_def fold_paint_segment_drop_highlight)
  show ?thesis
    using len clip skip inside negative ignore by blast
qed

theorem face_index_bounds_safety_witness:
  "color_faces 2 (Some two_segments) [2, 9] = [90, 178, 242, 255, 230, 80]
   \<and> length (color_faces 2 (Some two_segments) [2, 9]) = 6
   \<and> map (clip_face_ids 2) (segments two_segments) =
        [\<lparr>segment_id = 1, type = ''straight'', face_ids = Some [0, 1]\<rparr>,
         \<lparr>segment_id = 2, type = ''arc'', face_ids = Some [1]\<rparr>]
   \<and> \<not> (7::int) < int 2
   \<and> paint_face 2 HIGHLIGHT_COLOR 7 (default_colors 2) = default_colors 2
   \<and> (1::int) * 3 + 2 < int (length (color_faces 2 (Some two_segments) [2, 9]))
   \<and> paint_face 2 HIGHLIGHT_COLOR (- 1) (default_colors 2) = default_colors 2
   \<and> 9 \<notin> segment_id ` set (segments two_segments)
   \<and> color_faces 2 (Some two_segments) [2, 9] = color_faces 2 (Some two_segments) [2]"
proof -
  have ev: "color_faces 2 (Some two_segments) [2, 9] = [90, 178, 242, 255, 230, 80]"
    by code_simp
  have clipped: "map (clip_face_ids 2) (segments two_segments) =
        [\<lparr>segment_id = 1, type = ''straight'', face_ids = Some [0, 1]\<rparr>,
         \<lparr>segment_id = 2, type = ''arc'', face_ids = Some [1]\<rparr>]"
    by (simp add: two_segments_def clip_face_ids_def)
  have ids: "9 \<notin> segment_id ` set (segments two_segments)"
    by (simp add: two_segments_def)
  note beyond = face_index_bounds_safety
      [of 2 "Some two_segments" "[2, 9]" two_segments 7 HIGHLIGHT_COLOR "default_colors 2" 9 "[2]" "[]"]
  note within = face_index_bounds_safety
      [of 2 "Some two_segments" "[2, 9]" two_segments 1 HIGHLIGHT_COLOR "default_colors 2" 9 "[2]" "[]"]
  note below = face_index_bounds_safety
      [of 2 "Some two_segments" "[2, 9]" two_segments "- 1" HIGHLIGHT_COLOR "default_colors 2" 9 "[2]" "[]"]
  have len: "length (color_faces 2 (Some two_segments) [2, 9]) = 6"
    using beyond [THEN conjunct1] by simp
  have skip: "paint_face 2 HIGHLIGHT_COLOR 7 (default_colors 2) = default_colors 2"
    using beyond [THEN conjunct2, THEN conjunct2, THEN conjunct1] by simp
  have inside: "(1::int) * 3 + 2 < int (length (color_faces 2 (Some two_segments) [2, 9]))"
    using within [THEN conjunct2, THEN conjunct2, THEN conjunct2, THEN conjunct1] by simp
  have negative: "paint_face 2 HIGHLIGHT_COLOR (- 1) (default_colors 2) = default_colors 2"
    using below [THEN conjunct2, THEN conjunct2, THEN conjunct2, THEN conjunct2, THEN conjunct1]
    by simp
  have "color_faces 2 (Some two_segments) ([2] @ 9 # []) = color_faces 2 (Some two_segments) ([2] @ [])"
    using beyond [THEN conjunct2, THEN conjunct2, THEN conjunct2, THEN conjunct2, THEN conjunct2] ids
    by blast
  then have ignore: "color_faces 2 (Some two_segments) [2, 9] = color_faces 2 (Some two_segments) [2]"
    by simp
  show ?thesis
    using ev len clipped skip inside negative ids ignore by simp
qed

section \<open>Properties of the component\<close>

lemma bend_shown_eq:
  "bend_shown =
    \<lparr> surfaceMesh = Some (7, bend_mesh), loading = False, error_v = None, containerRef = True,
      vtkContextRef = Some 0,
      surfaceActorRef = Some \<lparr>scalars = [90, 178, 242, 242, 140, 90], actor_opacity = 2 / 5\<rparr>,
      rendererRef = Some 0, renderWindowRef = Some 0,
      rotatingRef = True, rafIdRef = Some 0, next_instance = 1, next_frame = 1,
      opacity_deps = Some (2 / 5), fetch_deps = Some (''u'', ''s''),
      render_deps = Some (Some 7, Some 5, 1, 2 / 5), render_cleanup = True \<rparr>"
proof -
  have c: "color_faces 2 (Some two_segments) [] = [90, 178, 242, 242, 140, 90]"
    by code_simp
  show ?thesis
    by (simp add: bend_shown_def rerender_def render_pass_def initial_viewer_def bend_props_def
      fetch_effect_def fetch_resolved_def render_effect_def render_deps_now_def opacity_effect_def
      startRotation_def Let_def c [unfolded numeral_2_eq_2] bend_mesh_def)
qed

text \<open>
  Whatever the state, a render whose props differ from those of the last commit in the
  opacity alone finds the dependencies of the scene effect changed; with a mesh on display
  the effect runs again and makes a new render window.
\<close>

lemma opacity_is_a_scene_dependency:
  assumes "render_deps v = Some (render_deps_now props v)" "x \<noteq> opacity props"
    "\<not> loading v" "error_v v = None" "surfaceMesh v = Some (a, mesh)"
    "vertices mesh \<noteq> []" "faces mesh \<noteq> []"
  shows "render_deps_now (props\<lparr>opacity := x\<rparr>) v \<noteq> render_deps_now props v
         \<and> vtkContextRef (render_pass (props\<lparr>opacity := x\<rparr>) v) = Some (next_instance v)
         \<and> next_instance (render_pass (props\<lparr>opacity := x\<rparr>) v) = Suc (next_instance v)"
  using assms
  by (auto simp: render_pass_def render_deps_now_def render_effect_def render_effect_cleanup_def
      opacity_effect_def fetch_effect_def startRotation_def stopRotation_def Let_def
      split: option.splits)

text \<open>
  C4 (an opacity change does not rebuild the scene). The code does rebuild it: \<open>opacity\<close>
  is in the dependency array of the scene effect. \<open>bend_shown\<close> displays a mesh in render
  window 0, the only one made so far. The opacity prop then goes from 0.4 to 0.5; the mesh,
  the segment result and the highlight ids are the same objects as before. After the render
  the scene is in a new render window, number 1, with a new surface actor whose colours were
  computed again.
\<close>

theorem opacity_change_rebuilds_scene:
  "render_deps bend_shown = Some (Some 7, Some 5, 1, 2 / 5)
   \<and> render_deps_now (bend_props\<lparr>opacity := 1 / 2\<rparr>) bend_shown = (Some 7, Some 5, 1, 1 / 2)
   \<and> vtkContextRef bend_shown = Some 0
   \<and> next_instance bend_shown = 1
   \<and> vtkContextRef (rerender (bend_props\<lparr>opacity := 1 / 2\<rparr>) bend_shown) = Some 1
   \<and> next_instance (rerender (bend_props\<lparr>opacity := 1 / 2\<rparr>) bend_shown) = 2
   \<and> surfaceActorRef (rerender (bend_props\<lparr>opacity := 1 / 2\<rparr>) bend_shown)
       = Some \<lparr>scalars = color_faces 2 (Some two_segments) [], actor_opacity = 1 / 2\<rparr>"
proof -
  have c: "color_faces 2 (Some two_segments) [] = [90, 178, 242, 242, 140, 90]"
    by code_simp
  have "rerender (bend_props\<lparr>opacity := 1 / 2\<rparr>) bend_shown =
     bend_shown
      \<lparr> vtkContextRef := Some 1, rendererRef := Some 1, renderWindowRef := Some 1,
        surfaceActorRef := Some \<lparr>scalars = [90, 178, 242, 242, 140, 90], actor_opacity = 1 / 2\<rparr>,
        rafIdRef := Some 1, next_instance := 2, next_frame := 2,
        opacity_deps := Some (1 / 2), render_deps := Some (Some 7, Some 5, 1, 1 / 2) \<rparr>"
    by (simp add: bend_shown_eq rerender_def render_pass_def bend_props_def
      fetch_effect_def render_effect_def render_deps_now_def opacity_effect_def
      render_effect_cleanup_def stopRotation_def
      startRotation_def Let_def c [unfolded numeral_2_eq_2] bend_mesh_def)
  then show ?thesis
    by (simp add: bend_shown_eq c render_deps_now_def bend_props_def)
qed

end
